theory Spec2Isabelle
  imports Main
begin

section \<open>The host's values\<close>

text \<open>
  The library under study (\<^verbatim>\<open>src/index.ts\<close>) inspects values of unknown type with the
  host's own primitives: \<^verbatim>\<open>typeof\<close>, \<^verbatim>\<open>instanceof Error\<close>, \<^verbatim>\<open>'then' in res\<close>, the string
  conversion of a template literal, \<^verbatim>\<open>new\<close>, \<^verbatim>\<open>Promise.resolve\<close> and the method calls
  \<^verbatim>\<open>.then\<close> and \<^verbatim>\<open>.catch\<close>. The embedding therefore starts with a universe of host values
  on which these primitives are defined as ECMA-262 defines them.

  An object is a node with an identity (\<open>oref\<close>), its prototype object (\<open>proto\<close>; the
  chain is finite and acyclic, as the host guarantees), whether it can be called
  (\<open>callable\<close>), whether it has the internal slots of a promise (\<open>promise_slot\<close>) and its
  own data properties (\<open>props\<close>). Two object values denote the same object when their
  identities are equal; a property that would lead back to the object itself is left
  out. Accessor properties and proxies are outside the embedding. A number is
  represented by an integer (fractions, \<^verbatim>\<open>NaN\<close> and the infinities are outside the
  embedding); how it is rendered is left to the host.
\<close>

type_synonym ref = nat

datatype jsval =
    JUndefined
  | JNull
  | JBool bool
  | JNum int
  | JBigInt int
  | JStr string
  | JSymbol ref "string option"
  | JObj jsobj
and jsobj =
    Obj (oref: ref) (proto: "jsobj option") (callable: bool) (promise_slot: bool)
      (props: "(string \<times> jsval) list")

text \<open>A call either returns a value or throws one.\<close>

datatype 'a completion = Return 'a | Throw jsval

text \<open>A deferred value ends fulfilled, rejected, or never settles.\<close>

datatype 'a settlement = Fulfilled 'a | Rejected jsval | Pending

text \<open>\<^verbatim>\<open>typeof v\<close>\<close>

fun typeof :: "jsval \<Rightarrow> string" where
  "typeof JUndefined = ''undefined''"
| "typeof JNull = ''object''"
| "typeof (JBool b) = ''boolean''"
| "typeof (JNum n) = ''number''"
| "typeof (JBigInt n) = ''bigint''"
| "typeof (JStr s) = ''string''"
| "typeof (JSymbol r d) = ''symbol''"
| "typeof (JObj ob) = (if callable ob then ''function'' else ''object'')"

text \<open>The identities of the objects on the prototype chain of an object, nearest first.\<close>

fun proto_chain :: "jsobj \<Rightarrow> ref list" where
  "proto_chain (Obj r p c s ps) =
     (case p of None \<Rightarrow> [] | Some q \<Rightarrow> oref q # proto_chain q)"

text \<open>
  Property lookup through the prototype chain: \<open>None\<close> when neither the object nor any
  of its prototypes has the property.
\<close>

fun lookup_prop :: "jsobj \<Rightarrow> string \<Rightarrow> jsval option" where
  "lookup_prop (Obj r p c s ps) k =
     (case map_of ps k of
        Some v \<Rightarrow> Some v
      | None \<Rightarrow> (case p of None \<Rightarrow> None | Some q \<Rightarrow> lookup_prop q k))"

text \<open>\<^verbatim>\<open>k in ob\<close>\<close>

definition has_property :: "jsobj \<Rightarrow> string \<Rightarrow> bool" where
  "has_property ob k = (case lookup_prop ob k of None \<Rightarrow> False | Some v \<Rightarrow> True)"

text \<open>\<^verbatim>\<open>v.k\<close> for a value that is an object; \<^verbatim>\<open>undefined\<close> when the property is missing.\<close>

definition get_prop :: "jsval \<Rightarrow> string \<Rightarrow> jsval" where
  "get_prop v k =
     (case v of
        JObj ob \<Rightarrow> (case lookup_prop ob k of None \<Rightarrow> JUndefined | Some x \<Rightarrow> x)
      | _ \<Rightarrow> JUndefined)"

definition is_callable :: "jsval \<Rightarrow> bool" where
  "is_callable v = (case v of JObj ob \<Rightarrow> callable ob | _ \<Rightarrow> False)"

definition is_object :: "jsval \<Rightarrow> bool" where
  "is_object v = (case v of JObj ob \<Rightarrow> True | _ \<Rightarrow> False)"

text \<open>Whether a value is the object \<open>x\<close>.\<close>

definition same_object :: "jsval \<Rightarrow> jsobj \<Rightarrow> bool" where
  "same_object v x = (case v of JObj ob \<Rightarrow> oref ob = oref x | _ \<Rightarrow> False)"

subsection \<open>The intrinsic objects the code refers to\<close>

definition Object_prototype :: jsobj where
  "Object_prototype = Obj 0 None False False []"

definition Function_prototype :: jsobj where
  "Function_prototype = Obj 1 (Some Object_prototype) True False []"

definition Error_prototype :: jsobj where
  "Error_prototype =
     Obj 2 (Some Object_prototype) False False
       [(''name'', JStr ''Error''), (''message'', JStr '''')]"

definition TypeError_prototype :: jsobj where
  "TypeError_prototype =
     Obj 3 (Some Error_prototype) False False
       [(''name'', JStr ''TypeError''), (''message'', JStr '''')]"

text \<open>The global \<^verbatim>\<open>Error\<close>: a function whose \<^verbatim>\<open>prototype\<close> property is \<open>Error_prototype\<close>.\<close>

definition Error_constructor :: jsobj where
  "Error_constructor =
     Obj 4 (Some Function_prototype) True False [(''prototype'', JObj Error_prototype)]"

text \<open>
  The built-in \<^verbatim>\<open>Promise.prototype.then\<close>, the global \<^verbatim>\<open>Promise\<close> and
  \<^verbatim>\<open>Promise.prototype\<close>.
\<close>

definition Promise_then_function :: jsobj where
  "Promise_then_function = Obj 5 (Some Function_prototype) True False []"

definition Promise_constructor :: jsobj where
  "Promise_constructor = Obj 7 (Some Function_prototype) True False []"

definition Promise_prototype :: jsobj where
  "Promise_prototype =
     Obj 6 (Some Object_prototype) False False
       [(''then'', JObj Promise_then_function), (''constructor'', JObj Promise_constructor)]"

text \<open>
  \<^verbatim>\<open>v instanceof Error\<close>: false for a primitive; for an object, whether \<^verbatim>\<open>Error.prototype\<close>
  is on its prototype chain. The chain starts at the object's prototype, not at the
  object itself.
\<close>

definition instanceof_Error :: "jsval \<Rightarrow> bool" where
  "instanceof_Error v =
     (case v of JObj ob \<Rightarrow> oref Error_prototype \<in> set (proto_chain ob) | _ \<Rightarrow> False)"

subsection \<open>The state, the Result value and the host's behaviour\<close>

text \<open>
  The state has the next free object identity, and a ghost field: the arguments with
  which \<^verbatim>\<open>tryCatch\<close> has called its error transformer so far (source line 119), in
  order.
\<close>

record world =
  next_ref :: ref
  transformer_calls :: "jsval list"

definition run :: "(ref \<Rightarrow> 'a \<times> ref) \<Rightarrow> world \<Rightarrow> 'a \<times> world" where
  "run f w = (case f (next_ref w) of (a, n) \<Rightarrow> (a, w\<lparr>next_ref := n\<rparr>))"

text \<open>
  \<^verbatim>\<open>OkResult\<close> and \<^verbatim>\<open>ErrResult\<close> are both objects with the three fields \<^verbatim>\<open>ok\<close>, \<^verbatim>\<open>val\<close>
  and \<^verbatim>\<open>err\<close>; the fields carry the prefix \<open>r_\<close> here, since \<open>ok\<close> and \<open>err\<close> name the
  functions.
\<close>

record result =
  r_ok :: bool
  r_val :: jsval
  r_err :: jsval

text \<open>
  What the host does by running code that is not the library's:
  \<^item> \<open>construct\<close>: \<^verbatim>\<open>new F(...args)\<close>, which gives an object whenever it returns;
  \<^item> \<open>object_to_string\<close>: the string conversion of an object (its \<^verbatim>\<open>toString\<close> and
    \<^verbatim>\<open>valueOf\<close> methods);
  \<^item> \<open>number_to_string\<close>: the string conversion of a number;
  \<^item> \<open>settle\<close>: how a native promise, or a thenable with a callable \<^verbatim>\<open>then\<close> that is
    resolved into a new promise, settles;
  \<^item> \<open>foreign_chain\<close>: what \<^verbatim>\<open>p.then(f).catch(h)\<close> does when \<^verbatim>\<open>p.then\<close> is a function
    other than the built-in one: it returns a value or throws, and it is handed the
    two handlers, which it may call;
  \<^item> \<open>call_error_message\<close>: the message of the \<^verbatim>\<open>TypeError\<close> for a call of something
    that is not a function;
  \<^item> \<open>stack_trace\<close>: the text of the trace stored in a new error.
\<close>

record host =
  construct :: "jsval \<Rightarrow> jsval list \<Rightarrow> ref \<Rightarrow> jsobj completion \<times> ref"
  object_to_string :: "jsobj \<Rightarrow> ref \<Rightarrow> string completion \<times> ref"
  number_to_string :: "int \<Rightarrow> string"
  settle :: "jsobj \<Rightarrow> ref \<Rightarrow> jsval settlement \<times> ref"
  foreign_chain ::
    "jsval \<Rightarrow> (jsval \<Rightarrow> result) \<Rightarrow> (jsval \<Rightarrow> world \<Rightarrow> result completion \<times> world) \<Rightarrow>
     world \<Rightarrow> jsval completion \<times> world"
  call_error_message :: string
  stack_trace :: "ref \<Rightarrow> string"

text \<open>\<^verbatim>\<open>new Error(msg)\<close> and \<^verbatim>\<open>new TypeError(msg)\<close> for a string \<open>msg\<close>.\<close>

definition new_Error :: "host \<Rightarrow> string \<Rightarrow> world \<Rightarrow> jsobj \<times> world" where
  "new_Error H msg w =
     (Obj (next_ref w) (Some Error_prototype) False False
        [(''message'', JStr msg), (''stack'', JStr (stack_trace H (next_ref w)))],
      w\<lparr>next_ref := Suc (next_ref w)\<rparr>)"

definition new_TypeError :: "host \<Rightarrow> string \<Rightarrow> world \<Rightarrow> jsobj \<times> world" where
  "new_TypeError H msg w =
     (Obj (next_ref w) (Some TypeError_prototype) False False
        [(''message'', JStr msg), (''stack'', JStr (stack_trace H (next_ref w)))],
      w\<lparr>next_ref := Suc (next_ref w)\<rparr>)"

text \<open>Decimal rendering of integers, which is how a \<^verbatim>\<open>bigint\<close> is rendered.\<close>

function show_nat :: "nat \<Rightarrow> string" where
  "show_nat n =
     (if n < 10 then [''0123456789'' ! n]
      else show_nat (n div 10) @ [''0123456789'' ! (n mod 10)])"
  by pat_completeness auto
termination
  by (relation "measure id") auto

definition show_int :: "int \<Rightarrow> string" where
  "show_int i = (if i < 0 then CHR ''-'' # show_nat (nat (- i)) else show_nat (nat i))"

text \<open>
  The string conversion a template literal applies to \<^verbatim>\<open>${v}\<close>. It throws a
  \<^verbatim>\<open>TypeError\<close> on a symbol, and runs the object's own conversion on an object.
\<close>

definition ToString :: "host \<Rightarrow> jsval \<Rightarrow> world \<Rightarrow> string completion \<times> world" where
  "ToString H v w =
     (case v of
        JUndefined \<Rightarrow> (Return ''undefined'', w)
      | JNull \<Rightarrow> (Return ''null'', w)
      | JBool b \<Rightarrow> (Return (if b then ''true'' else ''false''), w)
      | JNum n \<Rightarrow> (Return (number_to_string H n), w)
      | JBigInt n \<Rightarrow> (Return (show_int n), w)
      | JStr s \<Rightarrow> (Return s, w)
      | JSymbol r d \<Rightarrow>
          (case new_TypeError H ''Cannot convert a Symbol value to a string'' w of
             (e, w') \<Rightarrow> (Throw (JObj e), w'))
      | JObj ob \<Rightarrow> run (object_to_string H ob) w)"

section \<open>The constructors of a Result\<close>

definition ok :: "jsval \<Rightarrow> result" where
  "ok v = \<lparr>r_ok = True, r_val = v, r_err = JUndefined\<rparr>"

text \<open>
  \<^verbatim>\<open>err(stringOrErrOrErrClass, ...args)\<close>: the three tests of lines 65, 68 and 71-74 in
  the order of the source, then the \<^verbatim>\<open>throw\<close> of line 77. \<open>string_value\<close> reads the
  characters of a value whose type tag is \<^verbatim>\<open>string\<close>.
\<close>

definition string_value :: "jsval \<Rightarrow> string" where
  "string_value v = (case v of JStr s \<Rightarrow> s | _ \<Rightarrow> [])"

definition err :: "host \<Rightarrow> jsval \<Rightarrow> jsval list \<Rightarrow> world \<Rightarrow> result completion \<times> world" where
  "err H stringOrErrOrErrClass args w =
     (if typeof stringOrErrOrErrClass = ''string'' then
        (case new_Error H (string_value stringOrErrOrErrClass) w of
           (e, w') \<Rightarrow> (Return \<lparr>r_ok = False, r_val = JUndefined, r_err = JObj e\<rparr>, w'))
      else if instanceof_Error stringOrErrOrErrClass then
        (Return \<lparr>r_ok = False, r_val = JUndefined, r_err = stringOrErrOrErrClass\<rparr>, w)
      else if typeof stringOrErrOrErrClass = ''function'' \<and>
              instanceof_Error (get_prop stringOrErrOrErrClass ''prototype'') then
        (case run (construct H stringOrErrOrErrClass args) w of
           (Return e, w') \<Rightarrow>
             (Return \<lparr>r_ok = False, r_val = JUndefined, r_err = JObj e\<rparr>, w')
         | (Throw t, w') \<Rightarrow> (Throw t, w'))
      else
        (case new_Error H ''err expects a string, Error, or Error class as an argument'' w of
           (e, w') \<Rightarrow> (Throw (JObj e), w')))"

section \<open>The bridge from exceptions to results\<close>

text \<open>
  The caller's code: the computation takes no argument; the transformer takes the
  normalized error. Either may allocate objects, and either may throw.
\<close>

type_synonym computation = "ref \<Rightarrow> jsval completion \<times> ref"
type_synonym transformer = "jsval \<Rightarrow> ref \<Rightarrow> jsval completion \<times> ref"

text \<open>
  A promise is the settlement it reaches, as a function of the state in which its
  reactions start to run.
\<close>

type_synonym 'a promise = "world \<Rightarrow> 'a settlement \<times> world"

text \<open>
  What \<^verbatim>\<open>tryCatch\<close> returns: a Result; a promise of one, built by the library's own
  chain; or whatever value a foreign \<^verbatim>\<open>then\<close> and \<^verbatim>\<open>catch\<close> return.
\<close>

datatype outcome = Sync result | Deferred "result promise" | Foreign jsval

text \<open>
  \<^verbatim>\<open>Promise.resolve(v)\<close> returns \<open>v\<close> itself when \<open>v\<close> is a native promise whose
  \<^verbatim>\<open>constructor\<close> is the global \<^verbatim>\<open>Promise\<close>, and a new promise resolved with \<open>v\<close> otherwise.
\<close>

definition returned_as_is :: "jsval \<Rightarrow> bool" where
  "returned_as_is v =
     (case v of
        JObj ob \<Rightarrow> promise_slot ob \<and> same_object (get_prop v ''constructor'') Promise_constructor
      | _ \<Rightarrow> False)"

text \<open>
  How the promise that \<^verbatim>\<open>Promise.resolve(v)\<close> returns settles. A native promise returned
  as it is settles by its own state, whatever its \<^verbatim>\<open>then\<close> property holds. A new promise
  resolved with an object whose \<^verbatim>\<open>then\<close> can be called settles as the host runs that
  \<^verbatim>\<open>then\<close>; resolved with any other value, it is fulfilled with that value.
\<close>

definition Promise_resolve :: "host \<Rightarrow> jsval \<Rightarrow> jsval promise" where
  "Promise_resolve H v w =
     (case v of
        JObj ob \<Rightarrow>
          if returned_as_is v then run (settle H ob) w
          else if is_callable (get_prop v ''then'') then run (settle H ob) w
          else (Fulfilled v, w)
      | _ \<Rightarrow> (Fulfilled v, w))"

text \<open>
  The built-in \<^verbatim>\<open>p.then(f)\<close> for a handler that cannot throw, and the built-in
  \<^verbatim>\<open>p.catch(h)\<close>: what the handler returns fulfils the new promise, what it throws
  rejects it.
\<close>

definition Promise_then :: "'a promise \<Rightarrow> ('a \<Rightarrow> 'b) \<Rightarrow> 'b promise" where
  "Promise_then p f w =
     (case p w of
        (Fulfilled v, w') \<Rightarrow> (Fulfilled (f v), w')
      | (Rejected e, w') \<Rightarrow> (Rejected e, w')
      | (Pending, w') \<Rightarrow> (Pending, w'))"

definition as_settled :: "'a completion \<times> world \<Rightarrow> 'a settlement \<times> world" where
  "as_settled m =
     (case m of (Return r, w) \<Rightarrow> (Fulfilled r, w) | (Throw x, w) \<Rightarrow> (Rejected x, w))"

definition Promise_catch ::
  "'a promise \<Rightarrow> (jsval \<Rightarrow> world \<Rightarrow> 'a completion \<times> world) \<Rightarrow> 'a promise" where
  "Promise_catch p h w =
     (case p w of
        (Fulfilled v, w') \<Rightarrow> (Fulfilled v, w')
      | (Rejected e, w') \<Rightarrow> as_settled (h e w')
      | (Pending, w') \<Rightarrow> (Pending, w'))"

text \<open>
  The binding of \<^verbatim>\<open>error\<close> in \<^verbatim>\<open>makeErrorResult\<close> (lines 117-118): the raised value
  itself when it is an \<^verbatim>\<open>Error\<close>, a new \<^verbatim>\<open>Error\<close> built from its rendering and its type
  tag otherwise. The rendering is evaluated first and may throw.
\<close>

definition normalize_thrown :: "host \<Rightarrow> jsval \<Rightarrow> world \<Rightarrow> jsval completion \<times> world" where
  "normalize_thrown H e w =
     (if instanceof_Error e then (Return e, w)
      else
        (case ToString H e w of
           (Throw t, w') \<Rightarrow> (Throw t, w')
         | (Return s, w') \<Rightarrow>
             (case new_Error H
                     (''Unexpected throw value '' @ [CHR 0x27] @ s @ [CHR 0x27] @
                      '' of type '' @ typeof e) w' of
                (n, w'') \<Rightarrow> (Return (JObj n), w''))))"

text \<open>The call \<^verbatim>\<open>errorTransformer(error)\<close>, recorded in the ghost field.\<close>

definition call_transformer :: "transformer \<Rightarrow> jsval \<Rightarrow> world \<Rightarrow> jsval completion \<times> world" where
  "call_transformer errorTransformer error w =
     (case errorTransformer error (next_ref w) of
        (c, n) \<Rightarrow> (c, w\<lparr>next_ref := n, transformer_calls := transformer_calls w @ [error]\<rparr>))"

definition makeErrorResult ::
  "host \<Rightarrow> transformer \<Rightarrow> jsval \<Rightarrow> world \<Rightarrow> result completion \<times> world" where
  "makeErrorResult H errorTransformer e w =
     (case normalize_thrown H e w of
        (Throw t, w') \<Rightarrow> (Throw t, w')
      | (Return error, w') \<Rightarrow>
          (case call_transformer errorTransformer error w' of
             (Throw t, w'') \<Rightarrow> (Throw t, w'')
           | (Return r, w'') \<Rightarrow> err H r [] w''))"

text \<open>
  The expression of lines 126-128,
  \<^verbatim>\<open>Promise.resolve(res).then((val) => ok(val)).catch((e) => makeErrorResult(e))\<close>,
  evaluated when it is reached. \<^verbatim>\<open>Promise.resolve(res)\<close> does not throw. The call of
  \<^verbatim>\<open>.then\<close> reads the \<^verbatim>\<open>then\<close> property of what \<^verbatim>\<open>Promise.resolve\<close> returned: for a new
  promise that is the built-in; for \<open>res\<close> itself it is whatever \<open>res\<close> holds there. If
  that cannot be called, the call throws a \<^verbatim>\<open>TypeError\<close> at once; if it is the built-in,
  the library's chain is built and nothing runs yet; any other function is foreign
  code, and so is the \<^verbatim>\<open>.catch\<close> on what it returns.
\<close>

definition promise_chain ::
  "host \<Rightarrow> transformer \<Rightarrow> jsval \<Rightarrow> world \<Rightarrow> outcome completion \<times> world" where
  "promise_chain H errorTransformer res w =
     (if returned_as_is res then
        (if \<not> is_callable (get_prop res ''then'') then
           (case new_TypeError H (call_error_message H) w of
              (e, w') \<Rightarrow> (Throw (JObj e), w'))
         else if same_object (get_prop res ''then'') Promise_then_function then
           (Return (Deferred (Promise_catch (Promise_then (Promise_resolve H res) ok)
                                (makeErrorResult H errorTransformer))), w)
         else
           (case foreign_chain H res ok (makeErrorResult H errorTransformer) w of
              (Return v, w') \<Rightarrow> (Return (Foreign v), w')
            | (Throw e, w') \<Rightarrow> (Throw e, w')))
      else
        (Return (Deferred (Promise_catch (Promise_then (Promise_resolve H res) ok)
                             (makeErrorResult H errorTransformer))), w))"

text \<open>
  The \<^verbatim>\<open>try\<close> block, lines 122-132: what it returns, or what is thrown inside it, by
  the computation or by the evaluation of the promise chain.
\<close>

definition try_block ::
  "host \<Rightarrow> computation \<Rightarrow> transformer \<Rightarrow> world \<Rightarrow> outcome completion \<times> world" where
  "try_block H expression errorTransformer w =
     (case run expression w of
        (Throw e, w') \<Rightarrow> (Throw e, w')
      | (Return res, w') \<Rightarrow>
          if typeof res = ''object'' \<and> res \<noteq> JNull \<and>
             (case res of JObj ob \<Rightarrow> has_property ob ''then'' | _ \<Rightarrow> False)
          then promise_chain H errorTransformer res w'
          else (Return (Sync (ok res)), w'))"

text \<open>
  \<^verbatim>\<open>tryCatch(expression, errorTransformer)\<close>. The second argument is optional and
  defaults to the identity. Whatever is thrown inside the \<^verbatim>\<open>try\<close> block goes to
  \<^verbatim>\<open>makeErrorResult\<close> in the \<^verbatim>\<open>catch\<close> block (lines 134-137), whose Result is returned as
  it is; the \<^verbatim>\<open>catch\<close> block itself is not guarded.
\<close>

definition default_transformer :: transformer where
  "default_transformer e n = (Return e, n)"

definition as_sync :: "result completion \<times> world \<Rightarrow> outcome completion \<times> world" where
  "as_sync m =
     (case m of (Return r, w) \<Rightarrow> (Return (Sync r), w) | (Throw x, w) \<Rightarrow> (Throw x, w))"

definition tryCatch ::
  "host \<Rightarrow> computation \<Rightarrow> transformer option \<Rightarrow> world \<Rightarrow> outcome completion \<times> world" where
  "tryCatch H expression transformer_arg w =
     (let errorTransformer =
            (case transformer_arg of None \<Rightarrow> default_transformer | Some t \<Rightarrow> t)
      in
        case try_block H expression errorTransformer w of
          (Return out, w') \<Rightarrow> (Return out, w')
        | (Throw e, w') \<Rightarrow> as_sync (makeErrorResult H errorTransformer e w'))"

section \<open>The properties, in the words of the specification\<close>

text \<open>
  The variant invariant of a Result: the tag alone says which of the two slots is
  populated. A success carries its payload (whatever it is) and no error; a failure
  carries an error object and no payload.
\<close>

definition variant_invariant :: "result \<Rightarrow> bool" where
  "variant_invariant r =
     (if r_ok r then r_err r = JUndefined
      else r_val r = JUndefined \<and> is_object (r_err r))"

text \<open>
  The error capability of the specification is the host's error type, as the code tests
  it: a value is an error-capability object when \<open>instanceof_Error\<close> holds of it.
\<close>

text \<open>
  A constructor whose instances satisfy the error capability: a function such that the
  objects made by \<^verbatim>\<open>new\<close> from it are instances of \<^verbatim>\<open>Error\<close>. Such an object has the
  function's \<^verbatim>\<open>prototype\<close> property as its prototype, so \<^verbatim>\<open>Error.prototype\<close> must be that
  object or be on its chain. The global \<^verbatim>\<open>Error\<close> is one of them.
\<close>

definition constructs_errors :: "jsval \<Rightarrow> bool" where
  "constructs_errors C =
     (typeof C = ''function'' \<and>
      (case get_prop C ''prototype'' of
         JObj p \<Rightarrow> oref Error_prototype \<in> set (oref p # proto_chain p)
       | _ \<Rightarrow> False))"

text \<open>A value that exposes a then-like method: its \<^verbatim>\<open>then\<close> property can be called.\<close>

definition exposes_then :: "jsval \<Rightarrow> bool" where
  "exposes_then v = is_callable (get_prop v ''then'')"

text \<open>
  What the code tests before it evaluates the promise chain: an object that is not a
  function and has a \<^verbatim>\<open>then\<close> property, its own or inherited, of any value.
\<close>

definition object_with_then :: "jsval \<Rightarrow> bool" where
  "object_with_then v =
     (case v of JObj ob \<Rightarrow> \<not> callable ob \<and> has_property ob ''then'' | _ \<Rightarrow> False)"

text \<open>
  A native promise whose \<^verbatim>\<open>constructor\<close> is the global \<^verbatim>\<open>Promise\<close>: the values that
  \<^verbatim>\<open>Promise.resolve\<close> hands back unchanged.
\<close>

definition native_promise :: "jsval \<Rightarrow> bool" where
  "native_promise v =
     (case v of
        JObj ob \<Rightarrow> promise_slot ob \<and> same_object (get_prop v ''constructor'') Promise_constructor
      | _ \<Rightarrow> False)"

text \<open>
  The objects for which the library's chain is built: an object with a \<^verbatim>\<open>then\<close>
  property that is not such a native promise (\<^verbatim>\<open>Promise.resolve\<close> wraps it in a new
  promise), or one whose \<^verbatim>\<open>then\<close> is the built-in one.
\<close>

definition chain_is_built :: "jsval \<Rightarrow> bool" where
  "chain_is_built v =
     (object_with_then v \<and>
      (if native_promise v
       then is_callable (get_prop v ''then'') \<and>
            same_object (get_prop v ''then'') Promise_then_function
       else True))"

text \<open>Such a native promise whose \<^verbatim>\<open>then\<close> property cannot be called.\<close>

definition then_not_callable :: "jsval \<Rightarrow> bool" where
  "then_not_callable v =
     (object_with_then v \<and> native_promise v \<and> \<not> is_callable (get_prop v ''then''))"

text \<open>
  The error the specification prescribes for a raised value \<open>v\<close> that is not an error
  and has the rendering \<open>s\<close>: a new generic error with the message
  \<^verbatim>\<open>Unexpected throw value '<value>' of type <type>\<close>.
\<close>

definition synthesized :: "host \<Rightarrow> jsval \<Rightarrow> string \<Rightarrow> world \<Rightarrow> jsobj \<times> world" where
  "synthesized H v s w =
     new_Error H
       (''Unexpected throw value '' @ [CHR 0x27] @ s @ [CHR 0x27] @ '' of type '' @ typeof v) w"

text \<open>The transformer in force for an optional argument.\<close>

definition transformer_in_force :: "transformer option \<Rightarrow> transformer" where
  "transformer_in_force t = (case t of None \<Rightarrow> default_transformer | Some f \<Rightarrow> f)"

text \<open>
  One call of the transformer on \<open>error\<close>, written out: the transformer is applied to
  \<open>error\<close> once, the call is recorded, and \<^verbatim>\<open>err\<close> wraps what the transformer
  returned; what the transformer throws is thrown on.
\<close>

definition transformed_once ::
  "host \<Rightarrow> transformer \<Rightarrow> jsval \<Rightarrow> world \<Rightarrow> result completion \<times> world" where
  "transformed_once H T error w =
     (case T error (next_ref w) of
        (Return r, n) \<Rightarrow>
          err H r [] (w\<lparr>next_ref := n, transformer_calls := transformer_calls w @ [error]\<rparr>)
      | (Throw x, n) \<Rightarrow>
          (Throw x, w\<lparr>next_ref := n, transformer_calls := transformer_calls w @ [error]\<rparr>))"

section \<open>A concrete host and concrete values\<close>

text \<open>
  A host in which a native promise shows its state as properties, every function can
  be constructed (the new object takes the function's \<^verbatim>\<open>prototype\<close> and the first
  argument as its message), an object renders as \<^verbatim>\<open>[object Object]\<close>, a number as its
  decimal numeral, and foreign code returns \<^verbatim>\<open>undefined\<close> without calling a handler.
\<close>

definition sample_host :: host where
  "sample_host =
     \<lparr>construct = (\<lambda>F args n.
        if is_callable F then
          (Return (Obj n
             (Some (case get_prop F ''prototype'' of JObj p \<Rightarrow> p | _ \<Rightarrow> Object_prototype))
             False False
             [(''message'', (case args of [] \<Rightarrow> JStr [] | a # as \<Rightarrow> a)),
              (''stack'', JStr ''at new'')]), Suc n)
        else (Throw (JStr ''not a constructor''), n)),
      object_to_string = (\<lambda>ob n. (Return ''[object Object]'', n)),
      number_to_string = show_int,
      settle = (\<lambda>ob n.
        if get_prop (JObj ob) ''PromiseState'' = JStr ''fulfilled''
        then (Fulfilled (get_prop (JObj ob) ''PromiseResult''), n)
        else if get_prop (JObj ob) ''PromiseState'' = JStr ''rejected''
        then (Rejected (get_prop (JObj ob) ''PromiseResult''), n)
        else (Pending, n)),
      foreign_chain = (\<lambda>p f h w. (Return JUndefined, w)),
      call_error_message = ''Promise.resolve(...).then is not a function'',
      stack_trace = (\<lambda>r. ''at err'')\<rparr>"

text \<open>The computations \<^verbatim>\<open>() => v\<close> and \<^verbatim>\<open>() => { throw v }\<close>.\<close>

definition returning :: "jsval \<Rightarrow> computation" where
  "returning v n = (Return v, n)"

definition throwing :: "jsval \<Rightarrow> computation" where
  "throwing v n = (Throw v, n)"

definition world0 :: world where
  "world0 = \<lparr>next_ref = 100, transformer_calls = []\<rparr>"

text \<open>\<^verbatim>\<open>Promise.resolve(v)\<close> and \<^verbatim>\<open>Promise.reject(v)\<close> as objects.\<close>

definition resolved_promise :: "jsval \<Rightarrow> jsobj" where
  "resolved_promise v =
     Obj 40 (Some Promise_prototype) False True
       [(''PromiseState'', JStr ''fulfilled''), (''PromiseResult'', v)]"

definition rejected_promise :: "jsval \<Rightarrow> jsobj" where
  "rejected_promise v =
     Obj 41 (Some Promise_prototype) False True
       [(''PromiseState'', JStr ''rejected''), (''PromiseResult'', v)]"

text \<open>A promise that never settles.\<close>

definition pending_promise :: jsobj where
  "pending_promise =
     Obj 42 (Some Promise_prototype) False True [(''PromiseState'', JStr ''pending'')]"

text \<open>
  \<^verbatim>\<open>const p = Promise.resolve(v); p.then = 5\<close>: a fulfilled native promise whose own
  \<^verbatim>\<open>then\<close> property is a number.
\<close>

definition broken_promise :: "jsval \<Rightarrow> jsobj" where
  "broken_promise v =
     Obj 43 (Some Promise_prototype) False True
       [(''then'', JNum 5), (''PromiseState'', JStr ''fulfilled''), (''PromiseResult'', v)]"

text \<open>\<^verbatim>\<open>class TestError extends Error\<close> and \<^verbatim>\<open>class Test {}\<close> of the tests.\<close>

definition TestError :: jsobj where
  "TestError =
     Obj 20 (Some Function_prototype) True False
       [(''prototype'', JObj (Obj 21 (Some Error_prototype) False False []))]"

definition NonErrorClass :: jsobj where
  "NonErrorClass =
     Obj 22 (Some Function_prototype) True False
       [(''prototype'', JObj (Obj 23 (Some Object_prototype) False False []))]"

text \<open>
  A function that has a \<^verbatim>\<open>then\<close> method, and a plain object whose \<^verbatim>\<open>then\<close> is a number.
\<close>

definition some_function :: jsobj where
  "some_function = Obj 27 (Some Function_prototype) True False []"

definition callable_thenable :: jsobj where
  "callable_thenable =
     Obj 24 (Some Function_prototype) True False [(''then'', JObj some_function)]"

definition then_is_number :: jsobj where
  "then_is_number = Obj 25 (Some Object_prototype) False False [(''then'', JNum 5)]"

text \<open>\<^verbatim>\<open>new Error(msg)\<close> made before the call under study.\<close>

definition old_error :: "string \<Rightarrow> jsobj" where
  "old_error msg =
     Obj 30 (Some Error_prototype) False False
       [(''message'', JStr msg), (''stack'', JStr ''at old'')]"

text \<open>
  The transformer of the tests: it replaces the error with the message
  \<^verbatim>\<open>expected error\<close> by a new \<^verbatim>\<open>AnticipatedError\<close> and throws every other error again.
\<close>

definition AnticipatedError_prototype :: jsobj where
  "AnticipatedError_prototype = Obj 26 (Some Error_prototype) False False []"

definition rethrowing_transformer :: transformer where
  "rethrowing_transformer e n =
     (if get_prop e ''message'' = JStr ''expected error''
      then (Return (JObj (Obj n (Some AnticipatedError_prototype) False False
                            [(''name'', JStr ''AnticipatedError'')])), Suc n)
      else (Throw e, n))"

text \<open>A transformer that replaces every error by a new \<^verbatim>\<open>AnticipatedError\<close>.\<close>

definition replacing_transformer :: transformer where
  "replacing_transformer e n =
     (Return (JObj (Obj n (Some AnticipatedError_prototype) False False
                      [(''name'', JStr ''AnticipatedError'')])), Suc n)"

section \<open>Facts about the host's primitives\<close>

lemma instanceof_Error_object: "instanceof_Error v \<Longrightarrow> \<exists>ob. v = JObj ob"
  by (cases v) (simp_all add: instanceof_Error_def)

lemma instanceof_Error_not_string: "instanceof_Error v \<Longrightarrow> typeof v \<noteq> ''string''"
  by (cases v) (simp_all add: instanceof_Error_def)

lemma typeof_string: "typeof v = ''string'' \<longleftrightarrow> (\<exists>s. v = JStr s)"
  by (cases v) simp_all

lemma typeof_function: "typeof v = ''function'' \<longleftrightarrow> (\<exists>ob. v = JObj ob \<and> callable ob)"
  by (cases v) simp_all

lemma child_of_Error_prototype: "instanceof_Error (JObj (Obj r (Some Error_prototype) c s ps))"
  by (simp add: instanceof_Error_def)

lemma new_Error_instance: "instanceof_Error (JObj (fst (new_Error H msg w)))"
  by (simp add: new_Error_def child_of_Error_prototype)

lemma new_Error_message: "get_prop (JObj (fst (new_Error H msg w))) ''message'' = JStr msg"
  by (simp add: new_Error_def get_prop_def)

lemma new_Error_stack:
  "get_prop (JObj (fst (new_Error H msg w))) ''stack'' = JStr (stack_trace H (next_ref w))"
  by (simp add: new_Error_def get_prop_def)

lemma new_Error_fresh:
  "oref (fst (new_Error H msg w)) = next_ref w \<and>
   next_ref (snd (new_Error H msg w)) = Suc (next_ref w)"
  by (simp add: new_Error_def)

lemma new_TypeError_instance: "instanceof_Error (JObj (fst (new_TypeError H msg w)))"
  by (simp add: new_TypeError_def instanceof_Error_def TypeError_prototype_def)

lemma Error_prototype_not_instance: "\<not> instanceof_Error (JObj Error_prototype)"
  by (simp add: instanceof_Error_def Error_prototype_def Object_prototype_def)

section \<open>Facts about the failure constructor\<close>

lemma err_string:
  "err H (JStr m) args w =
     (Return \<lparr>r_ok = False, r_val = JUndefined, r_err = JObj (fst (new_Error H m w))\<rparr>,
      snd (new_Error H m w))"
  by (simp add: err_def string_value_def split: prod.split)

lemma err_Error_object:
  "instanceof_Error e \<Longrightarrow>
   err H e args w = (Return \<lparr>r_ok = False, r_val = JUndefined, r_err = e\<rparr>, w)"
  by (cases e) (simp_all add: err_def instanceof_Error_def)

lemma err_class:
  assumes "typeof C = ''function''" and "\<not> instanceof_Error C"
    and "instanceof_Error (get_prop C ''prototype'')"
  shows "err H C args w =
     (case run (construct H C args) w of
        (Return e, w') \<Rightarrow> (Return \<lparr>r_ok = False, r_val = JUndefined, r_err = JObj e\<rparr>, w')
      | (Throw t, w') \<Rightarrow> (Throw t, w'))"
  using assms by (cases C) (simp_all add: err_def)

lemma err_misuse:
  assumes "typeof x \<noteq> ''string''" and "\<not> instanceof_Error x"
    and "\<not> (typeof x = ''function'' \<and> instanceof_Error (get_prop x ''prototype''))"
  shows "err H x args w =
     (Throw (JObj (fst (new_Error H
        ''err expects a string, Error, or Error class as an argument'' w))),
      snd (new_Error H ''err expects a string, Error, or Error class as an argument'' w))"
  using assms by (cases x) (simp_all add: err_def split: prod.split)

lemma code_check_implies_constructs_errors:
  "typeof x = ''function'' \<Longrightarrow> instanceof_Error (get_prop x ''prototype'') \<Longrightarrow>
   constructs_errors x"
  by (auto simp: constructs_errors_def instanceof_Error_def split: jsval.splits)

lemma err_returns_failure:
  assumes "err H x args w = (Return r, w')"
  shows "\<not> r_ok r \<and> r_val r = JUndefined \<and> is_object (r_err r)"
proof (cases "typeof x = ''string''")
  case True
  then obtain s where "x = JStr s" by (auto simp: typeof_string)
  with assms show ?thesis by (auto simp: err_string is_object_def)
next
  case notstr: False
  show ?thesis
  proof (cases "instanceof_Error x")
    case True
    then obtain ob where "x = JObj ob" by (auto dest: instanceof_Error_object)
    with True assms show ?thesis by (auto simp: err_Error_object is_object_def)
  next
    case noterr: False
    show ?thesis
    proof (cases "typeof x = ''function'' \<and> instanceof_Error (get_prop x ''prototype'')")
      case True
      with noterr assms show ?thesis
        by (auto simp: err_class is_object_def split: prod.splits completion.splits)
    next
      case False
      with notstr noterr assms show ?thesis by (simp add: err_misuse)
    qed
  qed
qed

section \<open>Facts about normalization and the transformer\<close>

lemma normalize_Error: "instanceof_Error v \<Longrightarrow> normalize_thrown H v w = (Return v, w)"
  by (simp add: normalize_thrown_def)

lemma normalize_rendered:
  assumes "\<not> instanceof_Error v" and "ToString H v w = (Return s, w1)"
  shows "normalize_thrown H v w =
     (Return (JObj (fst (synthesized H v s w1))), snd (synthesized H v s w1))"
  using assms by (simp add: normalize_thrown_def synthesized_def split: prod.split)

lemma normalize_unrendered:
  assumes "\<not> instanceof_Error v" and "ToString H v w = (Throw x, w1)"
  shows "normalize_thrown H v w = (Throw x, w1)"
  using assms by (simp add: normalize_thrown_def)

lemma normalize_text:
  "normalize_thrown H (JStr s) w =
     (Return (JObj (fst (new_Error H
        (''Unexpected throw value '' @ [CHR 0x27] @ s @ [CHR 0x27] @ '' of type string'') w))),
      snd (new_Error H
        (''Unexpected throw value '' @ [CHR 0x27] @ s @ [CHR 0x27] @ '' of type string'') w))"
  by (simp add: normalize_rendered synthesized_def instanceof_Error_def ToString_def)

lemma symbol_unrendered:
  "\<exists>x wa. normalize_thrown H (JSymbol r d) w = (Throw x, wa)"
  by (simp add: normalize_thrown_def ToString_def new_TypeError_def instanceof_Error_def)

lemma makeErrorResult_transformed:
  assumes "normalize_thrown H e w = (Return error, w1)"
  shows "makeErrorResult H T e w = transformed_once H T error w1"
  using assms
  by (simp add: makeErrorResult_def call_transformer_def transformed_once_def
        split: prod.split completion.split)

lemma makeErrorResult_Error:
  "instanceof_Error e \<Longrightarrow> makeErrorResult H T e w = transformed_once H T e w"
  by (simp add: makeErrorResult_transformed normalize_Error)

lemma makeErrorResult_rendered:
  assumes "\<not> instanceof_Error e" and "ToString H e w = (Return s, w1)"
  shows "makeErrorResult H T e w =
     transformed_once H T (JObj (fst (synthesized H e s w1))) (snd (synthesized H e s w1))"
  using assms by (simp add: makeErrorResult_transformed normalize_rendered)

lemma makeErrorResult_unrendered:
  assumes "normalize_thrown H e w = (Throw x, w1)"
  shows "makeErrorResult H T e w = (Throw x, w1)"
  using assms by (simp add: makeErrorResult_def)

lemma transformed_once_returns:
  assumes "T error (next_ref w) = (Return r, n)" and "instanceof_Error r"
  shows "transformed_once H T error w =
     (Return \<lparr>r_ok = False, r_val = JUndefined, r_err = r\<rparr>,
      w\<lparr>next_ref := n, transformer_calls := transformer_calls w @ [error]\<rparr>)"
  using assms by (simp add: transformed_once_def err_Error_object)


lemma makeErrorResult_returns:
  assumes "normalize_thrown H e w = (Return error, w1)"
    and "T error (next_ref w1) = (Return r, n2)"
    and "instanceof_Error r"
  shows "makeErrorResult H T e w =
     (Return \<lparr>r_ok = False, r_val = JUndefined, r_err = r\<rparr>,
      w1\<lparr>next_ref := n2, transformer_calls := transformer_calls w1 @ [error]\<rparr>)"
  using assms by (simp add: makeErrorResult_transformed transformed_once_returns)


lemma makeErrorResult_failure:
  assumes "makeErrorResult H T e w = (Return r, w')"
  shows "\<not> r_ok r \<and> r_val r = JUndefined \<and> is_object (r_err r)"
  using assms
  by (auto simp: makeErrorResult_def split: prod.splits completion.splits
           dest: err_returns_failure)

section \<open>The paths of the bridge\<close>

lemma as_sync_simps:
  "as_sync (Return r, w) = (Return (Sync r), w)" "as_sync (Throw x, w) = (Throw x, w)"
  by (simp_all add: as_sync_def)

lemma as_settled_simps:
  "as_settled (Return r, w) = (Fulfilled r, w)" "as_settled (Throw x, w) = (Rejected x, w)"
  by (simp_all add: as_settled_def)

lemma as_sync_returns:
  "as_sync m = (Return out, w') \<Longrightarrow> \<exists>r. out = Sync r \<and> m = (Return r, w')"
  by (cases m) (auto simp: as_sync_def split: completion.splits)

lemma deferred_test:
  "(typeof res = ''object'' \<and> res \<noteq> JNull \<and>
    (case res of JObj ob \<Rightarrow> has_property ob ''then'' | _ \<Rightarrow> False)) = object_with_then res"
  by (cases res) (auto simp: object_with_then_def)

lemma tryCatch_unfold:
  "tryCatch H expression t w =
     (case try_block H expression (transformer_in_force t) w of
        (Return out, w') \<Rightarrow> (Return out, w')
      | (Throw e, w') \<Rightarrow> as_sync (makeErrorResult H (transformer_in_force t) e w'))"
  unfolding tryCatch_def Let_def transformer_in_force_def by (rule refl)

lemma tryCatch_thrown:
  assumes "expression (next_ref w) = (Throw v, n)"
  shows "tryCatch H expression t w =
     as_sync (makeErrorResult H (transformer_in_force t) v (w\<lparr>next_ref := n\<rparr>))"
  using assms by (simp add: tryCatch_unfold try_block_def run_def)

lemma tryCatch_immediate:
  assumes "expression (next_ref w) = (Return res, n)" and "\<not> object_with_then res"
  shows "tryCatch H expression t w = (Return (Sync (ok res)), w\<lparr>next_ref := n\<rparr>)"
  using assms by (simp add: tryCatch_unfold try_block_def run_def deferred_test)

lemma tryCatch_chain:
  assumes "expression (next_ref w) = (Return res, n)" and "object_with_then res"
  shows "tryCatch H expression t w =
     (case promise_chain H (transformer_in_force t) res (w\<lparr>next_ref := n\<rparr>) of
        (Return out, w') \<Rightarrow> (Return out, w')
      | (Throw e, w') \<Rightarrow> as_sync (makeErrorResult H (transformer_in_force t) e w'))"
  using assms by (simp add: tryCatch_unfold try_block_def run_def deferred_test)

lemma native_promise_returned: "returned_as_is v = native_promise v"
  by (simp add: returned_as_is_def native_promise_def)

lemma tryCatch_deferred:
  assumes "expression (next_ref w) = (Return res, n)" and "chain_is_built res"
  shows "tryCatch H expression t w =
     (Return (Deferred (Promise_catch (Promise_then (Promise_resolve H res) ok)
                          (makeErrorResult H (transformer_in_force t)))),
      w\<lparr>next_ref := n\<rparr>)"
proof -
  from assms(2) have owt: "object_with_then res" by (simp add: chain_is_built_def)
  from assms(2) have "promise_chain H (transformer_in_force t) res (w\<lparr>next_ref := n\<rparr>) =
     (Return (Deferred (Promise_catch (Promise_then (Promise_resolve H res) ok)
                          (makeErrorResult H (transformer_in_force t)))),
      w\<lparr>next_ref := n\<rparr>)"
    by (simp add: promise_chain_def chain_is_built_def native_promise_returned
          split: if_splits)
  with assms(1) owt show ?thesis by (simp add: tryCatch_chain)
qed

lemma tryCatch_then_not_callable:
  assumes "expression (next_ref w) = (Return res, n)" and "then_not_callable res"
  shows "tryCatch H expression t w =
     as_sync (transformed_once H (transformer_in_force t)
       (JObj (fst (new_TypeError H (call_error_message H) (w\<lparr>next_ref := n\<rparr>))))
       (snd (new_TypeError H (call_error_message H) (w\<lparr>next_ref := n\<rparr>))))"
proof -
  from assms(2) have owt: "object_with_then res" by (simp add: then_not_callable_def)
  from assms(2) have "promise_chain H (transformer_in_force t) res (w\<lparr>next_ref := n\<rparr>) =
     (Throw (JObj (fst (new_TypeError H (call_error_message H) (w\<lparr>next_ref := n\<rparr>)))),
      snd (new_TypeError H (call_error_message H) (w\<lparr>next_ref := n\<rparr>)))"
    by (simp add: promise_chain_def then_not_callable_def native_promise_returned
          split: prod.split)
  with assms(1) owt show ?thesis
    by (simp add: tryCatch_chain makeErrorResult_Error new_TypeError_instance)
qed

lemma tryCatch_foreign:
  assumes "expression (next_ref w) = (Return res, n)" and "object_with_then res"
    and "\<not> chain_is_built res" and "\<not> then_not_callable res"
  shows "tryCatch H expression t w =
     (case foreign_chain H res ok (makeErrorResult H (transformer_in_force t))
             (w\<lparr>next_ref := n\<rparr>) of
        (Return v, w') \<Rightarrow> (Return (Foreign v), w')
      | (Throw e, w') \<Rightarrow> as_sync (makeErrorResult H (transformer_in_force t) e w'))"
proof -
  from assms(2-4) have "promise_chain H (transformer_in_force t) res (w\<lparr>next_ref := n\<rparr>) =
     (case foreign_chain H res ok (makeErrorResult H (transformer_in_force t))
             (w\<lparr>next_ref := n\<rparr>) of
        (Return v, w') \<Rightarrow> (Return (Foreign v), w')
      | (Throw e, w') \<Rightarrow> (Throw e, w'))"
    by (auto simp: promise_chain_def chain_is_built_def then_not_callable_def
          native_promise_returned split: if_splits)
  with assms(1,2) show ?thesis
    by (simp add: tryCatch_chain split: prod.split completion.split)
qed

lemma promise_chain_returns:
  assumes "promise_chain H T res w = (Return out, w')"
  shows "out = Deferred (Promise_catch (Promise_then (Promise_resolve H res) ok)
                            (makeErrorResult H T)) \<or> (\<exists>v. out = Foreign v)"
  using assms
  by (auto simp: promise_chain_def split: if_splits prod.splits completion.splits)

lemma tryCatch_returns:
  assumes "tryCatch H expression t w = (Return out, w')"
  shows "(\<exists>res. out = Sync (ok res)) \<or>
         (\<exists>r e w1 w2. out = Sync r \<and>
            makeErrorResult H (transformer_in_force t) e w1 = (Return r, w2)) \<or>
         (\<exists>res. out = Deferred (Promise_catch (Promise_then (Promise_resolve H res) ok)
                                    (makeErrorResult H (transformer_in_force t)))) \<or>
         (\<exists>v. out = Foreign v)"
proof -
  obtain c w1 where tb: "try_block H expression (transformer_in_force t) w = (c, w1)"
    by (cases "try_block H expression (transformer_in_force t) w")
  show ?thesis
  proof (cases c)
    case (Throw e)
    with tb assms
    have "as_sync (makeErrorResult H (transformer_in_force t) e w1) = (Return out, w')"
      by (simp add: tryCatch_unfold)
    then show ?thesis by (blast dest: as_sync_returns)
  next
    case (Return o1)
    with tb assms have o1: "o1 = out" by (simp add: tryCatch_unfold)
    obtain d n where ex: "expression (next_ref w) = (d, n)"
      by (cases "expression (next_ref w)")
    show ?thesis
    proof (cases d)
      case inner: (Throw e)
      with ex tb Return show ?thesis by (simp add: try_block_def run_def)
    next
      case inner: (Return res)
      show ?thesis
      proof (cases "object_with_then res")
        case False
        with ex inner tb Return o1 show ?thesis
          by (auto simp: try_block_def run_def deferred_test)
      next
        case True
        with ex inner tb Return o1
        have "promise_chain H (transformer_in_force t) res (w\<lparr>next_ref := n\<rparr>) = (Return out, w1)"
          by (simp add: try_block_def run_def deferred_test)
        from promise_chain_returns [OF this] show ?thesis by blast
      qed
    qed
  qed
qed

lemma tryCatch_thrown_Error:
  assumes "expression (next_ref w) = (Throw v, n)" and "instanceof_Error v"
    and "transformer_in_force t v n = (Return r, na)" and "instanceof_Error r"
  shows "tryCatch H expression t w =
     (Return (Sync \<lparr>r_ok = False, r_val = JUndefined, r_err = r\<rparr>),
      w\<lparr>next_ref := na, transformer_calls := transformer_calls w @ [v]\<rparr>)"
  using assms
  by (simp add: tryCatch_thrown makeErrorResult_Error transformed_once_returns as_sync_def)

lemma tryCatch_thrown_rendered:
  assumes "expression (next_ref w) = (Throw v, n)" and "\<not> instanceof_Error v"
    and "ToString H v (w\<lparr>next_ref := n\<rparr>) = (Return s, wa)"
    and "transformer_in_force t (JObj (fst (synthesized H v s wa)))
           (next_ref (snd (synthesized H v s wa))) = (Return r, na)"
    and "instanceof_Error r"
  shows "tryCatch H expression t w =
     (Return (Sync \<lparr>r_ok = False, r_val = JUndefined, r_err = r\<rparr>),
      (snd (synthesized H v s wa))
        \<lparr>next_ref := na,
           transformer_calls := transformer_calls (snd (synthesized H v s wa)) @
             [JObj (fst (synthesized H v s wa))]\<rparr>)"
  using assms
  by (simp add: tryCatch_thrown makeErrorResult_rendered transformed_once_returns as_sync_def)

lemma chain_fulfilled:
  assumes "Promise_resolve H res w2 = (Fulfilled v, w3)"
  shows "Promise_catch (Promise_then (Promise_resolve H res) ok) h w2 = (Fulfilled (ok v), w3)"
  using assms by (simp add: Promise_catch_def Promise_then_def)

lemma chain_rejected:
  assumes "Promise_resolve H res w2 = (Rejected e, w3)"
  shows "Promise_catch (Promise_then (Promise_resolve H res) ok) h w2 = as_settled (h e w3)"
  using assms by (simp add: Promise_catch_def Promise_then_def)

lemma chain_pending:
  assumes "Promise_resolve H res w2 = (Pending, w3)"
  shows "Promise_catch (Promise_then (Promise_resolve H res) ok) h w2 = (Pending, w3)"
  using assms by (simp add: Promise_catch_def Promise_then_def)

section \<open>The record of the transformer's calls\<close>

lemma calls_run: "transformer_calls (snd (run f w)) = transformer_calls w"
  by (simp add: run_def split: prod.split)

lemma calls_new_Error: "transformer_calls (snd (new_Error H msg w)) = transformer_calls w"
  by (simp add: new_Error_def)

lemma calls_new_TypeError: "transformer_calls (snd (new_TypeError H msg w)) = transformer_calls w"
  by (simp add: new_TypeError_def)

lemma calls_synthesized: "transformer_calls (snd (synthesized H v s w)) = transformer_calls w"
  by (simp add: synthesized_def calls_new_Error)

lemma calls_ToString: "transformer_calls (snd (ToString H v w)) = transformer_calls w"
  by (cases v) (simp_all add: ToString_def new_TypeError_def calls_run)

lemma calls_err: "transformer_calls (snd (err H x args w)) = transformer_calls w"
proof (cases "typeof x = ''string''")
  case True
  then obtain s where "x = JStr s" by (auto simp: typeof_string)
  then show ?thesis by (simp add: err_string calls_new_Error)
next
  case notstr: False
  show ?thesis
  proof (cases "instanceof_Error x")
    case True
    then show ?thesis by (simp add: err_Error_object)
  next
    case noterr: False
    show ?thesis
    proof (cases "typeof x = ''function'' \<and> instanceof_Error (get_prop x ''prototype'')")
      case True
      obtain c w1 where r: "run (construct H x args) w = (c, w1)"
        by (cases "run (construct H x args) w")
      have "transformer_calls w1 = transformer_calls w"
        using calls_run [of "construct H x args" w] r by simp
      with True noterr r show ?thesis by (cases c) (simp_all add: err_class)
    next
      case False
      with notstr noterr show ?thesis by (simp add: err_misuse calls_new_Error)
    qed
  qed
qed

lemma calls_Promise_resolve:
  "transformer_calls (snd (Promise_resolve H v w)) = transformer_calls w"
  by (cases v) (simp_all add: Promise_resolve_def calls_run)

lemma calls_transformed_once:
  "transformer_calls (snd (transformed_once H T error w)) = transformer_calls w @ [error]"
proof -
  obtain c n where tr: "T error (next_ref w) = (c, n)" by (cases "T error (next_ref w)")
  show ?thesis
  proof (cases c)
    case (Throw x)
    with tr show ?thesis by (simp add: transformed_once_def)
  next
    case (Return r)
    with tr have "transformed_once H T error w =
        err H r [] (w\<lparr>next_ref := n, transformer_calls := transformer_calls w @ [error]\<rparr>)"
      by (simp add: transformed_once_def)
    then show ?thesis by (simp add: calls_err)
  qed
qed

lemma snd_as_settled: "snd (as_settled m) = snd m"
  by (cases m) (simp add: as_settled_def split: completion.split)

lemma snd_as_sync: "snd (as_sync m) = snd m"
  by (cases m) (simp add: as_sync_def split: completion.split)

section \<open>Facts about the concrete host and values\<close>

lemma sample_promise_as_is:
  "returned_as_is (JObj (resolved_promise v))" "returned_as_is (JObj (rejected_promise v))"
  "returned_as_is (JObj pending_promise)" "returned_as_is (JObj (broken_promise v))"
  by (simp_all add: returned_as_is_def same_object_def get_prop_def resolved_promise_def
        rejected_promise_def pending_promise_def broken_promise_def Promise_prototype_def
        Promise_constructor_def)

lemma sample_rejected:
  "Promise_resolve sample_host (JObj (rejected_promise v)) w = (Rejected v, w)"
  by (simp add: Promise_resolve_def sample_promise_as_is run_def sample_host_def)
     (simp add: rejected_promise_def get_prop_def)

lemma sample_resolved:
  "Promise_resolve sample_host (JObj (resolved_promise v)) w = (Fulfilled v, w)"
  by (simp add: Promise_resolve_def sample_promise_as_is run_def sample_host_def)
     (simp add: resolved_promise_def get_prop_def)

lemma sample_pending:
  "Promise_resolve sample_host (JObj pending_promise) w = (Pending, w)"
  by (simp add: Promise_resolve_def sample_promise_as_is run_def sample_host_def)
     (simp add: pending_promise_def get_prop_def)

lemma sample_broken:
  "Promise_resolve sample_host (JObj (broken_promise v)) w = (Fulfilled v, w)"
  by (simp add: Promise_resolve_def sample_promise_as_is run_def sample_host_def)
     (simp add: broken_promise_def get_prop_def)

lemma sample_promises_chain:
  "chain_is_built (JObj (resolved_promise v))" "chain_is_built (JObj (rejected_promise v))"
  "chain_is_built (JObj pending_promise)"
  by (simp_all add: chain_is_built_def sample_promise_as_is
        native_promise_returned [symmetric])
     (simp_all add: object_with_then_def has_property_def get_prop_def is_callable_def
        same_object_def resolved_promise_def rejected_promise_def pending_promise_def
        Promise_prototype_def Promise_then_function_def)

lemma broken_then_not_callable: "then_not_callable (JObj (broken_promise v))"
  by (simp add: then_not_callable_def sample_promise_as_is
        native_promise_returned [symmetric])
     (simp add: object_with_then_def has_property_def get_prop_def is_callable_def
        broken_promise_def)

lemma number_then_chain: "chain_is_built (JObj then_is_number)"
  by (simp add: chain_is_built_def object_with_then_def has_property_def native_promise_def
        then_is_number_def)

lemma old_error_instance: "instanceof_Error (JObj (old_error m))"
  by (simp add: old_error_def child_of_Error_prototype)


lemma rethrowing_expected:
  "rethrowing_transformer (JObj (old_error ''expected error'')) n =
     (Return (JObj (Obj n (Some AnticipatedError_prototype) False False
                      [(''name'', JStr ''AnticipatedError'')])), Suc n)"
  by (simp add: rethrowing_transformer_def old_error_def get_prop_def)

lemma anticipated_instance:
  "instanceof_Error (JObj (Obj n (Some AnticipatedError_prototype) c s ps))"
  by (simp add: instanceof_Error_def AnticipatedError_prototype_def)

lemma replaced_once:
  "transformed_once sample_host (transformer_in_force (Some replacing_transformer)) error w =
     (Return \<lparr>r_ok = False, r_val = JUndefined,
               r_err = JObj (Obj (next_ref w) (Some AnticipatedError_prototype) False False
                               [(''name'', JStr ''AnticipatedError'')])\<rparr>,
      w\<lparr>next_ref := Suc (next_ref w), transformer_calls := transformer_calls w @ [error]\<rparr>)"
  by (simp add: transformed_once_def transformer_in_force_def replacing_transformer_def
        err_Error_object anticipated_instance)

section \<open>The claims\<close>

subsection \<open>C1: which returned values take the deferred path\<close>

text \<open>
  C1 as stated says that a returned value takes the deferred path exactly when it
  exposes a then-like method. The code tests something else (line 123): the value must
  have the type tag \<^verbatim>\<open>object\<close>, must not be \<^verbatim>\<open>null\<close>, and must have a property named
  \<^verbatim>\<open>then\<close>, whatever that property holds. A function with a \<^verbatim>\<open>then\<close> method exposes a
  then-like method and is wrapped at once; a plain object whose \<^verbatim>\<open>then\<close> is the number 5
  exposes no method and gets a deferred Result.
\<close>

theorem C1_counterexample:
  "exposes_then (JObj callable_thenable) \<and>
   tryCatch sample_host (returning (JObj callable_thenable)) None world0 =
     (Return (Sync (ok (JObj callable_thenable))), world0) \<and>
   \<not> exposes_then (JObj then_is_number) \<and>
   (\<exists>p. tryCatch sample_host (returning (JObj then_is_number)) None world0 =
     (Return (Deferred p), world0))"
proof -
  have w: "world0\<lparr>next_ref := next_ref world0\<rparr> = world0" by simp
  have "exposes_then (JObj callable_thenable)"
    by (simp add: exposes_then_def callable_thenable_def get_prop_def is_callable_def
          some_function_def)
  moreover have "\<not> object_with_then (JObj callable_thenable)"
    by (simp add: object_with_then_def callable_thenable_def)
  then have "tryCatch sample_host (returning (JObj callable_thenable)) None world0 =
     (Return (Sync (ok (JObj callable_thenable))), world0)"
    using w by (simp add: tryCatch_immediate returning_def)
  moreover have "\<not> exposes_then (JObj then_is_number)"
    by (simp add: exposes_then_def then_is_number_def get_prop_def is_callable_def)
  moreover have "\<exists>p. tryCatch sample_host (returning (JObj then_is_number)) None world0 =
     (Return (Deferred p), world0)"
    using w number_then_chain by (simp add: tryCatch_deferred returning_def)
  ultimately show ?thesis by blast
qed

text \<open>
  C1, amended: for every computation that returns a value \<open>res\<close>:
  \<^item> if \<open>res\<close> is not an object with a \<^verbatim>\<open>then\<close> property (a primitive, \<^verbatim>\<open>null\<close>, any
    function, an object without \<^verbatim>\<open>then\<close>), \<^verbatim>\<open>tryCatch\<close> returns \<open>ok res\<close> at once as a plain
    Result;
  \<^item> if \<open>res\<close> is such an object and the library's chain is built on it (\<open>res\<close> is not
    a native promise that \<^verbatim>\<open>Promise.resolve\<close> returns as it is, or it is one whose
    \<^verbatim>\<open>then\<close> is the built-in), \<^verbatim>\<open>tryCatch\<close> returns a deferred Result; it is fulfilled
    with \<open>ok v\<close> when \<^verbatim>\<open>Promise.resolve(res)\<close> is fulfilled with \<open>v\<close>; when
    \<^verbatim>\<open>Promise.resolve(res)\<close> is rejected with \<open>e\<close>, and the transformer returns the error
    \<open>r\<close> for \<open>e\<close> (if \<open>e\<close> is an error) or for the error synthesized from the rendering
    of \<open>e\<close> (if \<open>e\<close> is not an error and has a rendering), it is fulfilled with the
    failure wrapping \<open>r\<close>;
  \<^item> if \<open>res\<close> is a native promise returned as it is whose \<^verbatim>\<open>then\<close> property cannot be
    called, the call of \<^verbatim>\<open>then\<close> throws a \<^verbatim>\<open>TypeError\<close> inside the \<^verbatim>\<open>try\<close> block, and
    \<^verbatim>\<open>tryCatch\<close> returns at once the plain failure wrapping what the transformer returns
    for that \<^verbatim>\<open>TypeError\<close>.
  Nothing is said of a native promise whose \<^verbatim>\<open>then\<close> is a foreign function.
\<close>

theorem C1_paths_of_a_returned_value:
  assumes "expression (next_ref w) = (Return res, n)"
  shows
    "(\<not> object_with_then res \<longrightarrow>
        tryCatch H expression t w = (Return (Sync (ok res)), w\<lparr>next_ref := n\<rparr>)) \<and>
     (chain_is_built res \<longrightarrow>
        (\<exists>p. tryCatch H expression t w = (Return (Deferred p), w\<lparr>next_ref := n\<rparr>) \<and>
           (\<forall>ws v wr. Promise_resolve H res ws = (Fulfilled v, wr) \<longrightarrow>
               p ws = (Fulfilled (ok v), wr)) \<and>
           (\<forall>ws e wr r na.
               Promise_resolve H res ws = (Rejected e, wr) \<longrightarrow>
               instanceof_Error e \<longrightarrow>
               transformer_in_force t e (next_ref wr) = (Return r, na) \<longrightarrow>
               instanceof_Error r \<longrightarrow>
               p ws = (Fulfilled \<lparr>r_ok = False, r_val = JUndefined, r_err = r\<rparr>,
                       wr\<lparr>next_ref := na,
                          transformer_calls := transformer_calls wr @ [e]\<rparr>)) \<and>
           (\<forall>ws e wr s wa r na.
               Promise_resolve H res ws = (Rejected e, wr) \<longrightarrow>
               \<not> instanceof_Error e \<longrightarrow>
               ToString H e wr = (Return s, wa) \<longrightarrow>
               transformer_in_force t (JObj (fst (synthesized H e s wa)))
                 (next_ref (snd (synthesized H e s wa))) = (Return r, na) \<longrightarrow>
               instanceof_Error r \<longrightarrow>
               p ws = (Fulfilled \<lparr>r_ok = False, r_val = JUndefined, r_err = r\<rparr>,
                       (snd (synthesized H e s wa))
                         \<lparr>next_ref := na,
                            transformer_calls :=
                              transformer_calls (snd (synthesized H e s wa)) @
                                [JObj (fst (synthesized H e s wa))]\<rparr>)))) \<and>
     (then_not_callable res \<longrightarrow>
        (\<forall>r na.
            transformer_in_force t
              (JObj (fst (new_TypeError H (call_error_message H) (w\<lparr>next_ref := n\<rparr>))))
              (next_ref (snd (new_TypeError H (call_error_message H) (w\<lparr>next_ref := n\<rparr>))))
              = (Return r, na) \<longrightarrow>
            instanceof_Error r \<longrightarrow>
            tryCatch H expression t w =
              (Return (Sync \<lparr>r_ok = False, r_val = JUndefined, r_err = r\<rparr>),
               (snd (new_TypeError H (call_error_message H) (w\<lparr>next_ref := n\<rparr>)))
                 \<lparr>next_ref := na,
                    transformer_calls :=
                      transformer_calls
                        (snd (new_TypeError H (call_error_message H) (w\<lparr>next_ref := n\<rparr>))) @
                      [JObj (fst (new_TypeError H (call_error_message H)
                                    (w\<lparr>next_ref := n\<rparr>)))]\<rparr>)))"
proof -
  let ?T = "transformer_in_force t"
  let ?p = "Promise_catch (Promise_then (Promise_resolve H res) ok) (makeErrorResult H ?T)"
  have immediate: "tryCatch H expression t w = (Return (Sync (ok res)), w\<lparr>next_ref := n\<rparr>)"
    if "\<not> object_with_then res"
    using assms that by (rule tryCatch_immediate)
  have deferred: "tryCatch H expression t w = (Return (Deferred ?p), w\<lparr>next_ref := n\<rparr>)"
    if "chain_is_built res"
    using assms that by (rule tryCatch_deferred)
  have fulfilled: "?p ws = (Fulfilled (ok v), wr)"
    if "Promise_resolve H res ws = (Fulfilled v, wr)" for ws v wr
    using that by (rule chain_fulfilled)
  have rejected_error:
    "?p ws = (Fulfilled \<lparr>r_ok = False, r_val = JUndefined, r_err = r\<rparr>,
              wr\<lparr>next_ref := na, transformer_calls := transformer_calls wr @ [e]\<rparr>)"
    if "Promise_resolve H res ws = (Rejected e, wr)" "instanceof_Error e"
      "?T e (next_ref wr) = (Return r, na)" "instanceof_Error r" for ws e wr r na
    using that
    by (simp add: chain_rejected makeErrorResult_Error transformed_once_returns as_settled_def)
  have rejected_other:
    "?p ws = (Fulfilled \<lparr>r_ok = False, r_val = JUndefined, r_err = r\<rparr>,
              (snd (synthesized H e s wa))
                \<lparr>next_ref := na,
                   transformer_calls := transformer_calls (snd (synthesized H e s wa)) @
                     [JObj (fst (synthesized H e s wa))]\<rparr>)"
    if "Promise_resolve H res ws = (Rejected e, wr)" "\<not> instanceof_Error e"
      "ToString H e wr = (Return s, wa)"
      "?T (JObj (fst (synthesized H e s wa))) (next_ref (snd (synthesized H e s wa)))
         = (Return r, na)"
      "instanceof_Error r" for ws e wr s wa r na
    using that
    by (simp add: chain_rejected makeErrorResult_rendered transformed_once_returns
          as_settled_def)
  have broken: "tryCatch H expression t w =
      (Return (Sync \<lparr>r_ok = False, r_val = JUndefined, r_err = r\<rparr>),
       (snd (new_TypeError H (call_error_message H) (w\<lparr>next_ref := n\<rparr>)))
         \<lparr>next_ref := na,
            transformer_calls :=
              transformer_calls
                (snd (new_TypeError H (call_error_message H) (w\<lparr>next_ref := n\<rparr>))) @
              [JObj (fst (new_TypeError H (call_error_message H) (w\<lparr>next_ref := n\<rparr>)))]\<rparr>)"
    if "then_not_callable res"
      "?T (JObj (fst (new_TypeError H (call_error_message H) (w\<lparr>next_ref := n\<rparr>))))
          (next_ref (snd (new_TypeError H (call_error_message H) (w\<lparr>next_ref := n\<rparr>))))
         = (Return r, na)"
      "instanceof_Error r" for r na
    using assms that
    by (simp add: tryCatch_then_not_callable transformed_once_returns as_sync_def)
  have "\<exists>p. tryCatch H expression t w = (Return (Deferred p), w\<lparr>next_ref := n\<rparr>) \<and>
           (\<forall>ws v wr. Promise_resolve H res ws = (Fulfilled v, wr) \<longrightarrow>
               p ws = (Fulfilled (ok v), wr)) \<and>
           (\<forall>ws e wr r na.
               Promise_resolve H res ws = (Rejected e, wr) \<longrightarrow>
               instanceof_Error e \<longrightarrow>
               ?T e (next_ref wr) = (Return r, na) \<longrightarrow>
               instanceof_Error r \<longrightarrow>
               p ws = (Fulfilled \<lparr>r_ok = False, r_val = JUndefined, r_err = r\<rparr>,
                       wr\<lparr>next_ref := na,
                          transformer_calls := transformer_calls wr @ [e]\<rparr>)) \<and>
           (\<forall>ws e wr s wa r na.
               Promise_resolve H res ws = (Rejected e, wr) \<longrightarrow>
               \<not> instanceof_Error e \<longrightarrow>
               ToString H e wr = (Return s, wa) \<longrightarrow>
               ?T (JObj (fst (synthesized H e s wa)))
                 (next_ref (snd (synthesized H e s wa))) = (Return r, na) \<longrightarrow>
               instanceof_Error r \<longrightarrow>
               p ws = (Fulfilled \<lparr>r_ok = False, r_val = JUndefined, r_err = r\<rparr>,
                       (snd (synthesized H e s wa))
                         \<lparr>next_ref := na,
                            transformer_calls :=
                              transformer_calls (snd (synthesized H e s wa)) @
                                [JObj (fst (synthesized H e s wa))]\<rparr>))"
    if "chain_is_built res"
    using deferred [OF that] fulfilled rejected_error rejected_other
    by (intro exI [of _ ?p] conjI allI impI) assumption+
  with immediate broken show ?thesis by (intro conjI impI allI) assumption+
qed

theorem C1_paths_of_a_returned_value_witness:
  "tryCatch sample_host (returning (JStr ''x'')) None world0
     = (Return (Sync (ok (JStr ''x''))), world0) \<and>
   (\<exists>p. tryCatch sample_host (returning (JObj (resolved_promise (JStr ''x'')))) None world0
          = (Return (Deferred p), world0) \<and>
        p world0 = (Fulfilled (ok (JStr ''x'')), world0)) \<and>
   (\<exists>p. tryCatch sample_host (returning (JObj (rejected_promise (JObj (old_error ''x'')))))
          None world0 = (Return (Deferred p), world0) \<and>
        p world0 = (Fulfilled \<lparr>r_ok = False, r_val = JUndefined,
                                r_err = JObj (old_error ''x'')\<rparr>,
                    world0\<lparr>transformer_calls := [JObj (old_error ''x'')]\<rparr>)) \<and>
   (\<exists>p. tryCatch sample_host (returning (JObj (rejected_promise (JStr ''x''))))
          None world0 = (Return (Deferred p), world0) \<and>
        (\<exists>e w'. p world0 = (Fulfilled \<lparr>r_ok = False, r_val = JUndefined, r_err = JObj e\<rparr>, w')
           \<and> get_prop (JObj e) ''message'' =
               JStr (''Unexpected throw value '' @ [CHR 0x27] @ ''x'' @ [CHR 0x27] @
                     '' of type string''))) \<and>
   (\<exists>e w'. tryCatch sample_host (returning (JObj (broken_promise (JStr ''x'')))) None world0
             = (Return (Sync \<lparr>r_ok = False, r_val = JUndefined, r_err = JObj e\<rparr>), w') \<and>
           proto e = Some TypeError_prototype)"
proof -
  let ?e = "JObj (old_error ''x'')"
  have w: "world0\<lparr>next_ref := next_ref world0\<rparr> = world0" by simp
  have w': "world0\<lparr>next_ref := next_ref world0,
                   transformer_calls := transformer_calls world0 @ [?e]\<rparr>
            = world0\<lparr>transformer_calls := [?e]\<rparr>"
    by (simp add: world0_def)
  have run: "returning v (next_ref world0) = (Return v, next_ref world0)" for v
    by (simp add: returning_def)
  have ident: "transformer_in_force None v k = (Return v, k)" for v k
    by (simp add: transformer_in_force_def default_transformer_def)
  note plain = C1_paths_of_a_returned_value
    [where expression = "returning (JStr ''x'')" and w = world0 and H = sample_host
       and t = None, OF run]
  note fulfils = C1_paths_of_a_returned_value
    [where expression = "returning (JObj (resolved_promise (JStr ''x'')))" and w = world0
       and H = sample_host and t = None, OF run]
  note rejects = C1_paths_of_a_returned_value
    [where expression = "returning (JObj (rejected_promise ?e))" and w = world0
       and H = sample_host and t = None, OF run]
  note rejects_text = C1_paths_of_a_returned_value
    [where expression = "returning (JObj (rejected_promise (JStr ''x'')))" and w = world0
       and H = sample_host and t = None, OF run]
  note broken = C1_paths_of_a_returned_value
    [where expression = "returning (JObj (broken_promise (JStr ''x'')))" and w = world0
       and H = sample_host and t = None, OF run]
  have "\<not> object_with_then (JStr ''x'')" by (simp add: object_with_then_def)
  with conjunct1 [OF plain] w
  have a: "tryCatch sample_host (returning (JStr ''x'')) None world0
             = (Return (Sync (ok (JStr ''x''))), world0)"
    by simp
  from mp [OF conjunct1 [OF conjunct2 [OF fulfils]] sample_promises_chain(1)]
  obtain p where
    p: "tryCatch sample_host (returning (JObj (resolved_promise (JStr ''x'')))) None world0
          = (Return (Deferred p), world0\<lparr>next_ref := next_ref world0\<rparr>)"
       "\<forall>ws v wr. Promise_resolve sample_host (JObj (resolved_promise (JStr ''x''))) ws
            = (Fulfilled v, wr) \<longrightarrow> p ws = (Fulfilled (ok v), wr)"
    by blast
  from p(2) sample_resolved have "p world0 = (Fulfilled (ok (JStr ''x'')), world0)" by blast
  with p(1) w have b: "\<exists>p. tryCatch sample_host
        (returning (JObj (resolved_promise (JStr ''x'')))) None world0
          = (Return (Deferred p), world0) \<and>
        p world0 = (Fulfilled (ok (JStr ''x'')), world0)"
    by auto
  from mp [OF conjunct1 [OF conjunct2 [OF rejects]] sample_promises_chain(2)]
  obtain q where
    q: "tryCatch sample_host (returning (JObj (rejected_promise ?e))) None world0
          = (Return (Deferred q), world0\<lparr>next_ref := next_ref world0\<rparr>)"
       "\<forall>ws e wr r na.
           Promise_resolve sample_host (JObj (rejected_promise ?e)) ws = (Rejected e, wr) \<longrightarrow>
           instanceof_Error e \<longrightarrow>
           transformer_in_force None e (next_ref wr) = (Return r, na) \<longrightarrow>
           instanceof_Error r \<longrightarrow>
           q ws = (Fulfilled \<lparr>r_ok = False, r_val = JUndefined, r_err = r\<rparr>,
                   wr\<lparr>next_ref := na, transformer_calls := transformer_calls wr @ [e]\<rparr>)"
    by blast
  from q(2) sample_rejected ident old_error_instance
  have "q world0 = (Fulfilled \<lparr>r_ok = False, r_val = JUndefined, r_err = ?e\<rparr>,
                   world0\<lparr>next_ref := next_ref world0,
                      transformer_calls := transformer_calls world0 @ [?e]\<rparr>)"
    by blast
  with q(1) w w' have c: "\<exists>p. tryCatch sample_host
          (returning (JObj (rejected_promise (JObj (old_error ''x''))))) None world0
            = (Return (Deferred p), world0) \<and>
        p world0 = (Fulfilled \<lparr>r_ok = False, r_val = JUndefined,
                                r_err = JObj (old_error ''x'')\<rparr>,
                    world0\<lparr>transformer_calls := [JObj (old_error ''x'')]\<rparr>)"
    by auto
  have str: "\<not> instanceof_Error (JStr ''x'')" "ToString sample_host (JStr ''x'') world0
                 = (Return ''x'', world0)"
    by (simp_all add: instanceof_Error_def ToString_def)
  let ?syn = "synthesized sample_host (JStr ''x'') ''x'' world0"
  have syn_inst: "instanceof_Error (JObj (fst ?syn))"
    by (simp add: synthesized_def new_Error_instance)
  have syn_msg: "get_prop (JObj (fst ?syn)) ''message'' =
      JStr (''Unexpected throw value '' @ [CHR 0x27] @ ''x'' @ [CHR 0x27] @ '' of type string'')"
    by (simp add: synthesized_def new_Error_message)
  from mp [OF conjunct1 [OF conjunct2 [OF rejects_text]] sample_promises_chain(2)]
  obtain q' where
    q': "tryCatch sample_host (returning (JObj (rejected_promise (JStr ''x'')))) None world0
          = (Return (Deferred q'), world0\<lparr>next_ref := next_ref world0\<rparr>)"
       "\<forall>ws e wr s wa r na.
           Promise_resolve sample_host (JObj (rejected_promise (JStr ''x''))) ws
             = (Rejected e, wr) \<longrightarrow>
           \<not> instanceof_Error e \<longrightarrow>
           ToString sample_host e wr = (Return s, wa) \<longrightarrow>
           transformer_in_force None (JObj (fst (synthesized sample_host e s wa)))
             (next_ref (snd (synthesized sample_host e s wa))) = (Return r, na) \<longrightarrow>
           instanceof_Error r \<longrightarrow>
           q' ws = (Fulfilled \<lparr>r_ok = False, r_val = JUndefined, r_err = r\<rparr>,
                    (snd (synthesized sample_host e s wa))
                      \<lparr>next_ref := na,
                         transformer_calls :=
                           transformer_calls (snd (synthesized sample_host e s wa)) @
                             [JObj (fst (synthesized sample_host e s wa))]\<rparr>)"
    by blast
  from q'(2) sample_rejected str ident syn_inst
  have "\<exists>w'. q' world0 = (Fulfilled \<lparr>r_ok = False, r_val = JUndefined,
                                      r_err = JObj (fst ?syn)\<rparr>, w')"
    by blast
  with q'(1) w syn_msg have d: "\<exists>p. tryCatch sample_host
          (returning (JObj (rejected_promise (JStr ''x'')))) None world0
            = (Return (Deferred p), world0) \<and>
        (\<exists>e w'. p world0 = (Fulfilled \<lparr>r_ok = False, r_val = JUndefined, r_err = JObj e\<rparr>, w')
           \<and> get_prop (JObj e) ''message'' =
               JStr (''Unexpected throw value '' @ [CHR 0x27] @ ''x'' @ [CHR 0x27] @
                     '' of type string''))"
    by auto
  let ?te = "new_TypeError sample_host (call_error_message sample_host)
               (world0\<lparr>next_ref := next_ref world0\<rparr>)"
  have te_proto: "proto (fst ?te) = Some TypeError_prototype"
    by (simp add: new_TypeError_def)
  from mp [OF conjunct2 [OF conjunct2 [OF broken]] broken_then_not_callable]
    ident new_TypeError_instance
  have "\<exists>w'. tryCatch sample_host (returning (JObj (broken_promise (JStr ''x'')))) None world0
             = (Return (Sync \<lparr>r_ok = False, r_val = JUndefined, r_err = JObj (fst ?te)\<rparr>), w')"
    by blast
  with te_proto
  have e: "\<exists>e w'. tryCatch sample_host (returning (JObj (broken_promise (JStr ''x'')))) None
             world0 = (Return (Sync \<lparr>r_ok = False, r_val = JUndefined, r_err = JObj e\<rparr>), w') \<and>
           proto e = Some TypeError_prototype"
    by blast
  from a b c d e show ?thesis by blast
qed

subsection \<open>C2: an exception of the transformer is not caught\<close>



subsection \<open>C3: normalization of the raised value\<close>

text \<open>
  C3 says that every raised value that is not an \<^verbatim>\<open>Error\<close> is replaced by a new \<^verbatim>\<open>Error\<close>
  whose message holds its rendering and its type tag, and that this error reaches the
  transformer. For a value whose rendering succeeds this is what \<open>normalize_rendered\<close>
  shows. A symbol has no rendering in a template literal: the conversion throws a
  \<^verbatim>\<open>TypeError\<close> inside \<^verbatim>\<open>makeErrorResult\<close>, so \<^verbatim>\<open>tryCatch\<close> throws that \<^verbatim>\<open>TypeError\<close>, no
  error is synthesized and the transformer is never called. The theorem evaluates the
  code at a thrown symbol.
\<close>

theorem C3_symbol_is_not_normalized:
  "\<not> instanceof_Error (JSymbol r d) \<and>
   (\<exists>e w'. tryCatch H (throwing (JSymbol r d)) t w = (Throw (JObj e), w') \<and>
      proto e = Some TypeError_prototype \<and>
      get_prop (JObj e) ''message'' = JStr ''Cannot convert a Symbol value to a string'' \<and>
      transformer_calls w' = transformer_calls w)"
  by (simp add: tryCatch_thrown throwing_def makeErrorResult_def normalize_thrown_def ToString_def
        new_TypeError_def instanceof_Error_def get_prop_def as_sync_def)

theorem C3_symbol_is_not_normalized_witness:
  "\<exists>e w'. tryCatch sample_host (throwing (JSymbol 7 (Some ''x''))) None world0
            = (Throw (JObj e), w') \<and>
      proto e = Some TypeError_prototype \<and>
      get_prop (JObj e) ''message'' = JStr ''Cannot convert a Symbol value to a string'' \<and>
      transformer_calls w' = []"
  using C3_symbol_is_not_normalized [of 7 "Some ''x''" sample_host None world0]
  by (simp add: world0_def)

subsection \<open>C4: the failure constructor on an error class\<close>

text \<open>
  C4 says that \<^verbatim>\<open>err(C, a1, ..., an)\<close> yields a failure, and never the misuse error, for
  every constructor \<open>C\<close> whose instances are errors, the generic \<^verbatim>\<open>Error\<close> included. The
  code accepts \<open>C\<close> only when \<^verbatim>\<open>C.prototype instanceof Error\<close> (line 73), and
  \<^verbatim>\<open>Error.prototype\<close> is not on its own prototype chain. The theorem evaluates the code
  at \<^verbatim>\<open>err(Error, ...args)\<close>: the instances of \<^verbatim>\<open>Error\<close> are errors, the test of line 73 fails,
  and the call throws the misuse error. For a class that extends \<^verbatim>\<open>Error\<close>, \<open>err_class\<close>
  gives the result the claim describes.
\<close>

theorem C4_err_rejects_Error_itself:
  "constructs_errors (JObj Error_constructor) \<and>
   \<not> instanceof_Error (get_prop (JObj Error_constructor) ''prototype'') \<and>
   (\<exists>e w'. err H (JObj Error_constructor) args w = (Throw (JObj e), w') \<and>
      instanceof_Error (JObj e) \<and>
      get_prop (JObj e) ''message'' =
        JStr ''err expects a string, Error, or Error class as an argument'')"
proof -
  have p: "get_prop (JObj Error_constructor) ''prototype'' = JObj Error_prototype"
    by (simp add: get_prop_def Error_constructor_def)
  have c: "constructs_errors (JObj Error_constructor)"
    by (simp add: constructs_errors_def p) (simp add: Error_constructor_def)
  have n: "\<not> instanceof_Error (JObj Error_constructor)"
    by (simp add: instanceof_Error_def Error_constructor_def Function_prototype_def
          Object_prototype_def Error_prototype_def)
  have "typeof (JObj Error_constructor) \<noteq> ''string''" by simp
  with n c p show ?thesis
    by (simp add: err_misuse Error_prototype_not_instance new_Error_message
          new_Error_instance)
qed

theorem C4_err_rejects_Error_itself_witness:
  "constructs_errors (JObj Error_constructor) \<and>
   err sample_host (JObj Error_constructor) [JStr ''boom''] world0 =
     (Throw (JObj (Obj 100 (Some Error_prototype) False False
        [(''message'', JStr ''err expects a string, Error, or Error class as an argument''),
         (''stack'', JStr ''at err'')])),
      \<lparr>next_ref = 101, transformer_calls = []\<rparr>)"
proof -
  from C4_err_rejects_Error_itself [of sample_host "[JStr ''boom'']" world0]
  have c: "constructs_errors (JObj Error_constructor)"
    and n: "\<not> instanceof_Error (get_prop (JObj Error_constructor) ''prototype'')"
    by simp_all
  have "\<not> instanceof_Error (JObj Error_constructor)"
    by (simp add: instanceof_Error_def Error_constructor_def Function_prototype_def
          Object_prototype_def Error_prototype_def)
  with c n show ?thesis
    by (simp add: err_misuse new_Error_def world0_def sample_host_def)
qed

subsection \<open>C5: misuse of the failure constructor\<close>

text \<open>
  C5: for every first argument that is not a string, not an \<^verbatim>\<open>Error\<close> object and not a
  constructor whose instances are errors, \<^verbatim>\<open>err\<close> throws a new \<^verbatim>\<open>Error\<close> with the message
  \<^verbatim>\<open>err expects a string, Error, or Error class as an argument\<close> and returns no Result;
  \<^verbatim>\<open>err(1)\<close> and \<^verbatim>\<open>err(class Test {})\<close> are two such calls.
\<close>

theorem C5_err_misuse:
  "(typeof x \<noteq> ''string'' \<and> \<not> instanceof_Error x \<and> \<not> constructs_errors x \<longrightarrow>
      (\<exists>e w'. err H x args w = (Throw (JObj e), w') \<and> instanceof_Error (JObj e) \<and>
         get_prop (JObj e) ''message'' =
           JStr ''err expects a string, Error, or Error class as an argument'')) \<and>
   (\<exists>e w'. err H (JNum 1) [] w = (Throw (JObj e), w') \<and>
      get_prop (JObj e) ''message'' =
        JStr ''err expects a string, Error, or Error class as an argument'') \<and>
   (\<exists>e w'. err H (JObj NonErrorClass) [] w = (Throw (JObj e), w') \<and>
      get_prop (JObj e) ''message'' =
        JStr ''err expects a string, Error, or Error class as an argument'')"
proof -
  have general: "\<exists>e w'. err H y as w = (Throw (JObj e), w') \<and> instanceof_Error (JObj e) \<and>
         get_prop (JObj e) ''message'' =
           JStr ''err expects a string, Error, or Error class as an argument''"
    if "typeof y \<noteq> ''string''" "\<not> instanceof_Error y" "\<not> constructs_errors y" for y as
  proof -
    from that(3)
    have "\<not> (typeof y = ''function'' \<and> instanceof_Error (get_prop y ''prototype''))"
      using code_check_implies_constructs_errors by blast
    with that(1,2) show ?thesis
      by (simp add: err_misuse new_Error_instance new_Error_message)
  qed
  have one: "typeof (JNum 1) \<noteq> ''string'' \<and> \<not> instanceof_Error (JNum 1) \<and>
             \<not> constructs_errors (JNum 1)"
    by (simp add: instanceof_Error_def constructs_errors_def)
  have cls: "typeof (JObj NonErrorClass) \<noteq> ''string'' \<and>
             \<not> instanceof_Error (JObj NonErrorClass) \<and>
             \<not> constructs_errors (JObj NonErrorClass)"
    by (simp add: instanceof_Error_def constructs_errors_def NonErrorClass_def get_prop_def
          Function_prototype_def Object_prototype_def Error_prototype_def)
  show ?thesis
    using general [of x args] general [of "JNum 1" "[]"] general [of "JObj NonErrorClass" "[]"]
      one cls
    by blast
qed

theorem C5_err_misuse_witness:
  "typeof JNull \<noteq> ''string'' \<and> \<not> instanceof_Error JNull \<and> \<not> constructs_errors JNull \<and>
   (\<exists>e w'. err sample_host JNull [] world0 = (Throw (JObj e), w') \<and>
      get_prop (JObj e) ''message'' =
        JStr ''err expects a string, Error, or Error class as an argument'')"
proof -
  have h: "typeof JNull \<noteq> ''string'' \<and> \<not> instanceof_Error JNull \<and> \<not> constructs_errors JNull"
    by (simp add: instanceof_Error_def constructs_errors_def)
  show ?thesis
    using h C5_err_misuse [of JNull sample_host "[]" world0] by blast
qed

subsection \<open>C6: a synchronous throw gives a plain failure\<close>

text \<open>
  C6 says that for every computation that throws synchronously and every transformer
  that returns a replacement error, \<^verbatim>\<open>tryCatch\<close> returns at once a plain failure. For a
  thrown error and for a thrown value that has a rendering this is what
  \<open>tryCatch_thrown_Error\<close> and \<open>tryCatch_thrown_rendered\<close> show. For a thrown symbol the
  rendering throws a \<^verbatim>\<open>TypeError\<close> in the unguarded \<^verbatim>\<open>catch\<close> block: whatever the
  transformer is, also the default one, which returns every error it is given,
  \<^verbatim>\<open>tryCatch\<close> throws and returns no Result. The theorem evaluates the code at a thrown
  symbol.
\<close>

theorem C6_thrown_symbol_gives_no_result:
  "default_transformer error n = (Return error, n) \<and>
   (\<forall>out w'. tryCatch H (throwing (JSymbol r d)) t w \<noteq> (Return out, w')) \<and>
   (\<exists>e w'. tryCatch H (throwing (JSymbol r d)) t w = (Throw (JObj e), w') \<and>
      instanceof_Error (JObj e) \<and>
      get_prop (JObj e) ''message'' = JStr ''Cannot convert a Symbol value to a string'')"
  by (simp add: tryCatch_thrown throwing_def makeErrorResult_def normalize_thrown_def ToString_def
        instanceof_Error_def as_sync_def default_transformer_def split: prod.split)
     (simp add: new_TypeError_def get_prop_def TypeError_prototype_def)

theorem C6_thrown_symbol_gives_no_result_witness:
  "tryCatch sample_host (throwing (JSymbol 7 (Some ''x''))) None world0 =
     (Throw (JObj (Obj 100 (Some TypeError_prototype) False False
        [(''message'', JStr ''Cannot convert a Symbol value to a string''),
         (''stack'', JStr ''at err'')])),
      \<lparr>next_ref = 101, transformer_calls = []\<rparr>)"
proof -
  from C6_thrown_symbol_gives_no_result [of JUndefined 0 sample_host 7 "Some ''x''" None world0]
  obtain e w' where
    "tryCatch sample_host (throwing (JSymbol 7 (Some ''x''))) None world0 = (Throw (JObj e), w')"
    by blast
  then show ?thesis
    by (simp add: tryCatch_thrown throwing_def makeErrorResult_def normalize_thrown_def
          ToString_def instanceof_Error_def as_sync_def new_TypeError_def world0_def
          sample_host_def)
qed

subsection \<open>C7: the failure constructor on an error object\<close>

text \<open>
  C7: for every object \<open>e\<close> that is an instance of \<^verbatim>\<open>Error\<close>, \<^verbatim>\<open>err(e)\<close> returns the
  failure whose error is \<open>e\<close> itself: the same identity, the same properties (its trace
  among them), and nothing is allocated, since the state is unchanged.
\<close>

theorem C7_err_of_error_object:
  "instanceof_Error e \<Longrightarrow>
   err H e args w = (Return \<lparr>r_ok = False, r_val = JUndefined, r_err = e\<rparr>, w)"
  by (rule err_Error_object)

theorem C7_err_of_error_object_witness:
  "instanceof_Error (JObj (old_error ''test'')) \<and>
   err sample_host (JObj (old_error ''test'')) [] world0 =
     (Return \<lparr>r_ok = False, r_val = JUndefined, r_err = JObj (old_error ''test'')\<rparr>, world0) \<and>
   get_prop (JObj (old_error ''test'')) ''stack'' = JStr ''at old''"
proof -
  have h: "instanceof_Error (JObj (old_error ''test''))"
    by (simp add: old_error_def child_of_Error_prototype)
  show ?thesis
    using h C7_err_of_error_object [OF h, of sample_host "[]" world0]
    by (simp add: old_error_def get_prop_def)
qed

subsection \<open>C8: the failure constructor on a text\<close>

text \<open>
  C8: for every string \<open>m\<close>, \<^verbatim>\<open>err(m)\<close> returns a failure whose error is a new object (its
  identity is the one the allocator gives next) with prototype \<^verbatim>\<open>Error.prototype\<close>, the
  message \<open>m\<close> and a \<^verbatim>\<open>stack\<close> property holding the trace the host captured at this
  construction.
\<close>

theorem C8_err_of_text:
  "\<exists>e w'. err H (JStr m) args w =
            (Return \<lparr>r_ok = False, r_val = JUndefined, r_err = JObj e\<rparr>, w') \<and>
          oref e = next_ref w \<and> next_ref w' = Suc (next_ref w) \<and>
          proto e = Some Error_prototype \<and> instanceof_Error (JObj e) \<and>
          get_prop (JObj e) ''message'' = JStr m \<and>
          has_property e ''stack'' \<and>
          get_prop (JObj e) ''stack'' = JStr (stack_trace H (next_ref w))"
  by (simp add: err_string new_Error_def get_prop_def has_property_def child_of_Error_prototype)

theorem C8_err_of_text_witness:
  "\<exists>e w'. err sample_host (JStr ''test'') [] world0 =
            (Return \<lparr>r_ok = False, r_val = JUndefined, r_err = JObj e\<rparr>, w') \<and>
          oref e = 100 \<and> next_ref w' = 101 \<and>
          get_prop (JObj e) ''message'' = JStr ''test'' \<and>
          get_prop (JObj e) ''stack'' = JStr ''at err''"
  using C8_err_of_text [of sample_host "''test''" "[]" world0]
  by (auto simp: world0_def sample_host_def)

subsection \<open>C9: the variant invariant\<close>

text \<open>
  C9: \<open>ok v\<close> has the tag true, the payload \<open>v\<close> and no error, for every \<open>v\<close>
  (\<^verbatim>\<open>undefined\<close> among them); and every Result that \<^verbatim>\<open>ok\<close>, \<^verbatim>\<open>err\<close> or \<^verbatim>\<open>tryCatch\<close>
  produces, at once or as the fulfilment of the promise it returns, satisfies the
  variant invariant: the slot that the tag does not select is \<^verbatim>\<open>undefined\<close>, and a
  failure holds an error object.
\<close>

theorem C9_variant_invariant:
  "r_ok (ok v) \<and> r_val (ok v) = v \<and> r_err (ok v) = JUndefined \<and> variant_invariant (ok v) \<and>
   (\<forall>r w'. err H x args w = (Return r, w') \<longrightarrow> variant_invariant r) \<and>
   (\<forall>r w'. tryCatch H expression t w = (Return (Sync r), w') \<longrightarrow> variant_invariant r) \<and>
   (\<forall>p w' w2 r w3. tryCatch H expression t w = (Return (Deferred p), w') \<longrightarrow>
        p w2 = (Fulfilled r, w3) \<longrightarrow> variant_invariant r)"
proof -
  have failure: "variant_invariant r"
    if "\<not> r_ok r \<and> r_val r = JUndefined \<and> is_object (r_err r)" for r
    using that by (simp add: variant_invariant_def)
  have success: "variant_invariant (ok u)" for u
    by (simp add: variant_invariant_def ok_def)
  have from_err: "variant_invariant r" if "err H x args w = (Return r, w')" for r w'
    using err_returns_failure [OF that] by (rule failure)
  have from_sync: "variant_invariant r"
    if tc: "tryCatch H expression t w = (Return (Sync r), w')" for r w'
    using tryCatch_returns [OF tc]
    by (auto simp: success dest: makeErrorResult_failure intro: failure)
  have from_deferred: "variant_invariant r"
    if tc: "tryCatch H expression t w = (Return (Deferred p), w')"
      and settled: "p w2 = (Fulfilled r, w3)" for p w' w2 r w3
  proof -
    from tryCatch_returns [OF tc] obtain res where
      p: "p = Promise_catch (Promise_then (Promise_resolve H res) ok)
                (makeErrorResult H (transformer_in_force t))"
      by auto
    obtain s wa where pr: "Promise_resolve H res w2 = (s, wa)"
      by (cases "Promise_resolve H res w2")
    show ?thesis
    proof (cases s)
      case (Fulfilled u)
      with pr p settled have "r = ok u" by (simp add: chain_fulfilled)
      then show ?thesis by (simp add: success)
    next
      case (Rejected e)
      with pr p settled
      have "\<exists>w4. makeErrorResult H (transformer_in_force t) e wa = (Return r, w4)"
        by (cases "makeErrorResult H (transformer_in_force t) e wa")
           (auto simp: chain_rejected as_settled_def split: completion.splits)
      then show ?thesis by (auto dest: makeErrorResult_failure intro: failure)
    next
      case Pending
      with pr p settled show ?thesis by (simp add: chain_pending)
    qed
  qed
  show ?thesis
    using success from_err from_sync from_deferred by (simp add: ok_def)
qed

theorem C9_variant_invariant_witness:
  "variant_invariant (ok JUndefined) \<and>
   (\<exists>r w'. err sample_host (JStr ''m'') [] world0 = (Return r, w') \<and> variant_invariant r) \<and>
   (\<exists>r w'. tryCatch sample_host (throwing (JObj (old_error ''x''))) None world0
              = (Return (Sync r), w') \<and> variant_invariant r) \<and>
   (\<exists>p w' r w3. tryCatch sample_host (returning (JObj (resolved_promise (JStr ''x''))))
                   None world0 = (Return (Deferred p), w') \<and>
                 p world0 = (Fulfilled r, w3) \<and> variant_invariant r)"
proof -
  let ?thrower = "throwing (JObj (old_error ''x''))"
  let ?promiser = "returning (JObj (resolved_promise (JStr ''x'')))"
  have a: "\<exists>r w'. err sample_host (JStr ''m'') [] world0 = (Return r, w')"
    by (simp add: err_string)
  have b: "\<exists>r w'. tryCatch sample_host ?thrower None world0 = (Return (Sync r), w')"
    by (simp add: tryCatch_thrown throwing_def makeErrorResult_Error old_error_instance
          transformed_once_def transformer_in_force_def default_transformer_def
          err_Error_object as_sync_def)
  have c: "\<exists>p w' r w3. tryCatch sample_host ?promiser None world0 = (Return (Deferred p), w') \<and>
             p world0 = (Fulfilled r, w3)"
    using chain_fulfilled [OF sample_resolved]
    by (simp add: tryCatch_deferred returning_def sample_promises_chain)
  note thrown = C9_variant_invariant
    [of JUndefined sample_host "JStr ''m''" "[]" world0 ?thrower None]
  note promised = C9_variant_invariant
    [of JUndefined sample_host "JStr ''m''" "[]" world0 ?promiser None]
  from thrown have "variant_invariant (ok JUndefined)" by simp
  moreover from a obtain r1 w1 where
    r1: "err sample_host (JStr ''m'') [] world0 = (Return r1, w1)" by blast
  with thrown have "variant_invariant r1" by blast
  moreover from b obtain r2 w2 where
    r2: "tryCatch sample_host ?thrower None world0 = (Return (Sync r2), w2)" by blast
  with thrown have "variant_invariant r2" by blast
  moreover from c obtain p w3 r3 w4 where
    r3: "tryCatch sample_host ?promiser None world0 = (Return (Deferred p), w3)"
      "p world0 = (Fulfilled r3, w4)" by blast
  with promised have "variant_invariant r3" by blast
  ultimately show ?thesis using r1 r2 r3 by blast
qed

subsection \<open>C10: when the transformer is called\<close>

text \<open>
  C10 as stated says that the transformer is not called when the computation returns a
  deferred value that resolves, and is called only when the computation throws or its
  deferred value rejects. The promise chain is evaluated inside the \<^verbatim>\<open>try\<close> block: for
  a fulfilled native promise whose own \<^verbatim>\<open>then\<close> property is the number 5, the call of
  \<^verbatim>\<open>then\<close> throws a \<^verbatim>\<open>TypeError\<close>, the \<^verbatim>\<open>catch\<close> block runs, and the transformer is called
  once, on that \<^verbatim>\<open>TypeError\<close>, although the computation did not throw and its promise
  is fulfilled.
\<close>

theorem C10_counterexample:
  "Promise_resolve sample_host (JObj (broken_promise (JStr ''x''))) world0
     = (Fulfilled (JStr ''x''), world0) \<and>
   tryCatch sample_host (returning (JObj (broken_promise (JStr ''x''))))
     (Some replacing_transformer) world0 =
     (Return (Sync \<lparr>r_ok = False, r_val = JUndefined,
                     r_err = JObj (Obj 101 (Some AnticipatedError_prototype) False False
                                     [(''name'', JStr ''AnticipatedError'')])\<rparr>),
      \<lparr>next_ref = 102,
         transformer_calls =
           [JObj (Obj 100 (Some TypeError_prototype) False False
                    [(''message'', JStr ''Promise.resolve(...).then is not a function''),
                     (''stack'', JStr ''at err'')])]\<rparr>)"
proof -
  have ret: "returning u (next_ref world0) = (Return u, next_ref world0)" for u
    by (simp add: returning_def)
  have "as_sync (transformed_once sample_host (transformer_in_force (Some replacing_transformer))
      (JObj (fst (new_TypeError sample_host (call_error_message sample_host)
                    (world0\<lparr>next_ref := next_ref world0\<rparr>))))
      (snd (new_TypeError sample_host (call_error_message sample_host)
              (world0\<lparr>next_ref := next_ref world0\<rparr>)))) =
     (Return (Sync \<lparr>r_ok = False, r_val = JUndefined,
                     r_err = JObj (Obj 101 (Some AnticipatedError_prototype) False False
                                     [(''name'', JStr ''AnticipatedError'')])\<rparr>),
      \<lparr>next_ref = 102,
         transformer_calls =
           [JObj (Obj 100 (Some TypeError_prototype) False False
                    [(''message'', JStr ''Promise.resolve(...).then is not a function''),
                     (''stack'', JStr ''at err'')])]\<rparr>)"
    by (simp add: transformed_once_def transformer_in_force_def replacing_transformer_def
          new_TypeError_def err_Error_object anticipated_instance as_sync_def
          world0_def sample_host_def)
  with tryCatch_then_not_callable
    [where expression = "returning (JObj (broken_promise (JStr ''x'')))" and w = world0
       and H = sample_host and t = "Some replacing_transformer",
     OF ret broken_then_not_callable]
  have "tryCatch sample_host (returning (JObj (broken_promise (JStr ''x''))))
     (Some replacing_transformer) world0 =
     (Return (Sync \<lparr>r_ok = False, r_val = JUndefined,
                     r_err = JObj (Obj 101 (Some AnticipatedError_prototype) False False
                                     [(''name'', JStr ''AnticipatedError'')])\<rparr>),
      \<lparr>next_ref = 102,
         transformer_calls =
           [JObj (Obj 100 (Some TypeError_prototype) False False
                    [(''message'', JStr ''Promise.resolve(...).then is not a function''),
                     (''stack'', JStr ''at err'')])]\<rparr>)"
    by simp
  with sample_broken show ?thesis by simp
qed

text \<open>
  C10, amended: \<^verbatim>\<open>tryCatch\<close> does not call the transformer when the computation
  returns a value that is wrapped at once; when the library's chain is built on the
  returned object, it does not call it before it returns, nor when the deferred value
  is fulfilled or never settles. It applies the transformer exactly once, and \<^verbatim>\<open>err\<close>
  wraps what that one application returns:
  \<^item> to \<open>e\<close> itself when the computation throws \<open>e\<close>, or its deferred value is rejected
    with \<open>e\<close>, and \<open>e\<close> is an error;
  \<^item> to the error synthesized from the rendering of \<open>e\<close> when \<open>e\<close> is not an error and
    has a rendering;
  \<^item> to the \<^verbatim>\<open>TypeError\<close> of the call of \<^verbatim>\<open>then\<close> when the computation returns a native
    promise whose \<^verbatim>\<open>then\<close> property cannot be called.
  Nothing is said of a raised value whose rendering throws, nor of a native promise
  whose \<^verbatim>\<open>then\<close> is a foreign function. The calls are read from the ghost field of the
  state, and the result is the one computed from the transformer's own output.
\<close>

theorem C10_calls_of_the_transformer:
  "(expression (next_ref w) = (Return res, n) \<and> \<not> object_with_then res \<longrightarrow>
      tryCatch H expression t w = (Return (Sync (ok res)), w\<lparr>next_ref := n\<rparr>) \<and>
      transformer_calls (snd (tryCatch H expression t w)) = transformer_calls w) \<and>
   (expression (next_ref w) = (Return res, n) \<and> chain_is_built res \<longrightarrow>
      (\<exists>p. tryCatch H expression t w = (Return (Deferred p), w\<lparr>next_ref := n\<rparr>) \<and>
         (\<forall>ws u wr. Promise_resolve H res ws = (Fulfilled u, wr) \<longrightarrow>
            p ws = (Fulfilled (ok u), wr) \<and> transformer_calls wr = transformer_calls ws) \<and>
         (\<forall>ws wr. Promise_resolve H res ws = (Pending, wr) \<longrightarrow>
            p ws = (Pending, wr) \<and> transformer_calls wr = transformer_calls ws) \<and>
         (\<forall>ws e wr. Promise_resolve H res ws = (Rejected e, wr) \<longrightarrow>
            instanceof_Error e \<longrightarrow>
            p ws = as_settled (transformed_once H (transformer_in_force t) e wr) \<and>
            transformer_calls (snd (p ws)) = transformer_calls ws @ [e]) \<and>
         (\<forall>ws e wr s wa. Promise_resolve H res ws = (Rejected e, wr) \<longrightarrow>
            \<not> instanceof_Error e \<longrightarrow>
            ToString H e wr = (Return s, wa) \<longrightarrow>
            p ws = as_settled (transformed_once H (transformer_in_force t)
                                 (JObj (fst (synthesized H e s wa)))
                                 (snd (synthesized H e s wa))) \<and>
            transformer_calls (snd (p ws)) =
              transformer_calls ws @ [JObj (fst (synthesized H e s wa))]))) \<and>
   (expression (next_ref w) = (Throw v, n) \<and> instanceof_Error v \<longrightarrow>
      tryCatch H expression t w =
        as_sync (transformed_once H (transformer_in_force t) v (w\<lparr>next_ref := n\<rparr>)) \<and>
      transformer_calls (snd (tryCatch H expression t w)) = transformer_calls w @ [v]) \<and>
   (expression (next_ref w) = (Throw v, n) \<and> \<not> instanceof_Error v \<and>
    ToString H v (w\<lparr>next_ref := n\<rparr>) = (Return s, wa) \<longrightarrow>
      tryCatch H expression t w =
        as_sync (transformed_once H (transformer_in_force t)
                   (JObj (fst (synthesized H v s wa))) (snd (synthesized H v s wa))) \<and>
      transformer_calls (snd (tryCatch H expression t w)) =
        transformer_calls w @ [JObj (fst (synthesized H v s wa))]) \<and>
   (expression (next_ref w) = (Return res, n) \<and> then_not_callable res \<longrightarrow>
      tryCatch H expression t w =
        as_sync (transformed_once H (transformer_in_force t)
                   (JObj (fst (new_TypeError H (call_error_message H) (w\<lparr>next_ref := n\<rparr>))))
                   (snd (new_TypeError H (call_error_message H) (w\<lparr>next_ref := n\<rparr>)))) \<and>
      transformer_calls (snd (tryCatch H expression t w)) =
        transformer_calls w @
          [JObj (fst (new_TypeError H (call_error_message H) (w\<lparr>next_ref := n\<rparr>)))])"
proof -
  let ?T = "transformer_in_force t"
  let ?p = "Promise_catch (Promise_then (Promise_resolve H res) ok) (makeErrorResult H ?T)"
  have immediate:
    "tryCatch H expression t w = (Return (Sync (ok res)), w\<lparr>next_ref := n\<rparr>) \<and>
     transformer_calls (snd (tryCatch H expression t w)) = transformer_calls w"
    if "expression (next_ref w) = (Return res, n)" "\<not> object_with_then res"
    using that by (simp add: tryCatch_immediate)
  have resolve_calls: "transformer_calls wr = transformer_calls ws"
    if "Promise_resolve H res ws = (s, wr)" for ws s wr
    using calls_Promise_resolve [of H res ws] that by simp
  have fulfilled: "?p ws = (Fulfilled (ok u), wr) \<and> transformer_calls wr = transformer_calls ws"
    if "Promise_resolve H res ws = (Fulfilled u, wr)" for ws u wr
    using that resolve_calls [OF that] by (simp add: chain_fulfilled)
  have pending: "?p ws = (Pending, wr) \<and> transformer_calls wr = transformer_calls ws"
    if "Promise_resolve H res ws = (Pending, wr)" for ws wr
    using that resolve_calls [OF that] by (simp add: chain_pending)
  have rejected_error:
    "?p ws = as_settled (transformed_once H ?T e wr) \<and>
     transformer_calls (snd (?p ws)) = transformer_calls ws @ [e]"
    if "Promise_resolve H res ws = (Rejected e, wr)" "instanceof_Error e" for ws e wr
    using that resolve_calls [OF that(1)]
    by (simp add: chain_rejected makeErrorResult_Error snd_as_settled calls_transformed_once)
  have rejected_other:
    "?p ws = as_settled (transformed_once H ?T (JObj (fst (synthesized H e s wa)))
                           (snd (synthesized H e s wa))) \<and>
     transformer_calls (snd (?p ws)) =
       transformer_calls ws @ [JObj (fst (synthesized H e s wa))]"
    if "Promise_resolve H res ws = (Rejected e, wr)" "\<not> instanceof_Error e"
      "ToString H e wr = (Return s, wa)" for ws e wr s wa
  proof -
    have "transformer_calls wa = transformer_calls wr"
      using calls_ToString [of H e wr] that(3) by simp
    with that resolve_calls [OF that(1)] show ?thesis
      by (simp add: chain_rejected makeErrorResult_rendered snd_as_settled
            calls_transformed_once calls_synthesized)
  qed
  have deferred: "\<exists>p. tryCatch H expression t w = (Return (Deferred p), w\<lparr>next_ref := n\<rparr>) \<and>
         (\<forall>ws u wr. Promise_resolve H res ws = (Fulfilled u, wr) \<longrightarrow>
            p ws = (Fulfilled (ok u), wr) \<and> transformer_calls wr = transformer_calls ws) \<and>
         (\<forall>ws wr. Promise_resolve H res ws = (Pending, wr) \<longrightarrow>
            p ws = (Pending, wr) \<and> transformer_calls wr = transformer_calls ws) \<and>
         (\<forall>ws e wr. Promise_resolve H res ws = (Rejected e, wr) \<longrightarrow>
            instanceof_Error e \<longrightarrow>
            p ws = as_settled (transformed_once H ?T e wr) \<and>
            transformer_calls (snd (p ws)) = transformer_calls ws @ [e]) \<and>
         (\<forall>ws e wr s wa. Promise_resolve H res ws = (Rejected e, wr) \<longrightarrow>
            \<not> instanceof_Error e \<longrightarrow>
            ToString H e wr = (Return s, wa) \<longrightarrow>
            p ws = as_settled (transformed_once H ?T
                                 (JObj (fst (synthesized H e s wa)))
                                 (snd (synthesized H e s wa))) \<and>
            transformer_calls (snd (p ws)) =
              transformer_calls ws @ [JObj (fst (synthesized H e s wa))])"
    if ret: "expression (next_ref w) = (Return res, n)" and built: "chain_is_built res"
  proof -
    have "tryCatch H expression t w = (Return (Deferred ?p), w\<lparr>next_ref := n\<rparr>)"
      using ret built by (rule tryCatch_deferred)
    with fulfilled pending rejected_error rejected_other show ?thesis
      by (intro exI [of _ ?p] conjI allI impI) (assumption | blast)+
  qed
  have thrown_error:
    "tryCatch H expression t w = as_sync (transformed_once H ?T v (w\<lparr>next_ref := n\<rparr>)) \<and>
     transformer_calls (snd (tryCatch H expression t w)) = transformer_calls w @ [v]"
    if "expression (next_ref w) = (Throw v, n)" "instanceof_Error v"
    using that
    by (simp add: tryCatch_thrown makeErrorResult_Error snd_as_sync calls_transformed_once)
  have thrown_other:
    "tryCatch H expression t w =
       as_sync (transformed_once H ?T (JObj (fst (synthesized H v s wa)))
                  (snd (synthesized H v s wa))) \<and>
     transformer_calls (snd (tryCatch H expression t w)) =
       transformer_calls w @ [JObj (fst (synthesized H v s wa))]"
    if "expression (next_ref w) = (Throw v, n)" "\<not> instanceof_Error v"
      "ToString H v (w\<lparr>next_ref := n\<rparr>) = (Return s, wa)"
  proof -
    have "transformer_calls wa = transformer_calls w"
      using calls_ToString [of H v "w\<lparr>next_ref := n\<rparr>"] that(3) by simp
    with that show ?thesis
      by (simp add: tryCatch_thrown makeErrorResult_rendered snd_as_sync
            calls_transformed_once calls_synthesized)
  qed
  have broken:
    "tryCatch H expression t w =
       as_sync (transformed_once H ?T
                  (JObj (fst (new_TypeError H (call_error_message H) (w\<lparr>next_ref := n\<rparr>))))
                  (snd (new_TypeError H (call_error_message H) (w\<lparr>next_ref := n\<rparr>)))) \<and>
     transformer_calls (snd (tryCatch H expression t w)) =
       transformer_calls w @
         [JObj (fst (new_TypeError H (call_error_message H) (w\<lparr>next_ref := n\<rparr>)))]"
    if "expression (next_ref w) = (Return res, n)" "then_not_callable res"
    using that
    by (simp add: tryCatch_then_not_callable snd_as_sync calls_transformed_once
          calls_new_TypeError)
  from immediate deferred thrown_error thrown_other broken show ?thesis
    by (intro conjI impI) (elim conjE, assumption | blast)+
qed

theorem C10_calls_of_the_transformer_witness:
  "tryCatch sample_host (returning (JStr ''x'')) (Some replacing_transformer) world0
     = (Return (Sync (ok (JStr ''x''))), world0) \<and>
   (\<exists>p. tryCatch sample_host (returning (JObj (resolved_promise (JStr ''x''))))
      (Some replacing_transformer) world0 = (Return (Deferred p), world0) \<and>
      p world0 = (Fulfilled (ok (JStr ''x'')), world0)) \<and>
   (\<exists>p. tryCatch sample_host (returning (JObj pending_promise))
      (Some replacing_transformer) world0 = (Return (Deferred p), world0) \<and>
      p world0 = (Pending, world0)) \<and>
   (\<exists>p. tryCatch sample_host (returning (JObj (rejected_promise (JObj (old_error ''other'')))))
      (Some replacing_transformer) world0 = (Return (Deferred p), world0) \<and>
      p world0 =
        (Fulfilled \<lparr>r_ok = False, r_val = JUndefined,
                     r_err = JObj (Obj 100 (Some AnticipatedError_prototype) False False
                                     [(''name'', JStr ''AnticipatedError'')])\<rparr>,
         \<lparr>next_ref = 101, transformer_calls = [JObj (old_error ''other'')]\<rparr>)) \<and>
   tryCatch sample_host (throwing (JObj (old_error ''other''))) (Some replacing_transformer)
     world0 =
     (Return (Sync \<lparr>r_ok = False, r_val = JUndefined,
                     r_err = JObj (Obj 100 (Some AnticipatedError_prototype) False False
                                     [(''name'', JStr ''AnticipatedError'')])\<rparr>),
      \<lparr>next_ref = 101, transformer_calls = [JObj (old_error ''other'')]\<rparr>) \<and>
   tryCatch sample_host (throwing (JStr ''x'')) (Some replacing_transformer) world0 =
     (Return (Sync \<lparr>r_ok = False, r_val = JUndefined,
                     r_err = JObj (Obj 101 (Some AnticipatedError_prototype) False False
                                     [(''name'', JStr ''AnticipatedError'')])\<rparr>),
      \<lparr>next_ref = 102,
         transformer_calls =
           [JObj (Obj 100 (Some Error_prototype) False False
              [(''message'', JStr (''Unexpected throw value '' @ [CHR 0x27] @ ''x'' @
                                    [CHR 0x27] @ '' of type string'')),
               (''stack'', JStr ''at err'')])]\<rparr>) \<and>
   transformer_calls (snd (tryCatch sample_host (returning (JObj (broken_promise (JStr ''x''))))
     (Some replacing_transformer) world0)) =
     [JObj (Obj 100 (Some TypeError_prototype) False False
        [(''message'', JStr ''Promise.resolve(...).then is not a function''),
         (''stack'', JStr ''at err'')])]"
proof -
  let ?t = "Some replacing_transformer"
  let ?e = "JObj (old_error ''other'')"
  have w: "world0\<lparr>next_ref := next_ref world0\<rparr> = world0" by simp
  have ret: "returning u (next_ref world0) = (Return u, next_ref world0)" for u
    by (simp add: returning_def)
  have thr: "throwing u (next_ref world0) = (Throw u, next_ref world0)" for u
    by (simp add: throwing_def)
  have plain: "\<not> object_with_then (JStr ''x'')" by (simp add: object_with_then_def)
  have str: "\<not> instanceof_Error (JStr ''x'')"
    "ToString sample_host (JStr ''x'') (world0\<lparr>next_ref := next_ref world0\<rparr>)
       = (Return ''x'', world0)"
    by (simp_all add: instanceof_Error_def ToString_def)
  note all = C10_calls_of_the_transformer [where w = world0 and H = sample_host and t = ?t
      and n = "next_ref world0"]
  from conjunct1 [OF all [where expression = "returning (JStr ''x'')" and res = "JStr ''x''"]]
    ret plain w
  have a: "tryCatch sample_host (returning (JStr ''x'')) ?t world0
             = (Return (Sync (ok (JStr ''x''))), world0)"
    by simp
  have deferred: "\<exists>p. tryCatch sample_host (returning res) ?t world0
                        = (Return (Deferred p), world0) \<and>
         (\<forall>ws u wr. Promise_resolve sample_host res ws = (Fulfilled u, wr) \<longrightarrow>
            p ws = (Fulfilled (ok u), wr) \<and> transformer_calls wr = transformer_calls ws) \<and>
         (\<forall>ws wr. Promise_resolve sample_host res ws = (Pending, wr) \<longrightarrow>
            p ws = (Pending, wr) \<and> transformer_calls wr = transformer_calls ws) \<and>
         (\<forall>ws e wr. Promise_resolve sample_host res ws = (Rejected e, wr) \<longrightarrow>
            instanceof_Error e \<longrightarrow>
            p ws = as_settled (transformed_once sample_host (transformer_in_force ?t) e wr) \<and>
            transformer_calls (snd (p ws)) = transformer_calls ws @ [e]) \<and>
         (\<forall>ws e wr s wa. Promise_resolve sample_host res ws = (Rejected e, wr) \<longrightarrow>
            \<not> instanceof_Error e \<longrightarrow>
            ToString sample_host e wr = (Return s, wa) \<longrightarrow>
            p ws = as_settled (transformed_once sample_host (transformer_in_force ?t)
                                 (JObj (fst (synthesized sample_host e s wa)))
                                 (snd (synthesized sample_host e s wa))) \<and>
            transformer_calls (snd (p ws)) =
              transformer_calls ws @ [JObj (fst (synthesized sample_host e s wa))])"
    if built: "chain_is_built res" for res
  proof -
    note inst = all [where expression = "returning res" and res = res]
    from ret built have "\<exists>p. tryCatch sample_host (returning res) ?t world0
                        = (Return (Deferred p), world0\<lparr>next_ref := next_ref world0\<rparr>) \<and>
         (\<forall>ws u wr. Promise_resolve sample_host res ws = (Fulfilled u, wr) \<longrightarrow>
            p ws = (Fulfilled (ok u), wr) \<and> transformer_calls wr = transformer_calls ws) \<and>
         (\<forall>ws wr. Promise_resolve sample_host res ws = (Pending, wr) \<longrightarrow>
            p ws = (Pending, wr) \<and> transformer_calls wr = transformer_calls ws) \<and>
         (\<forall>ws e wr. Promise_resolve sample_host res ws = (Rejected e, wr) \<longrightarrow>
            instanceof_Error e \<longrightarrow>
            p ws = as_settled (transformed_once sample_host (transformer_in_force ?t) e wr) \<and>
            transformer_calls (snd (p ws)) = transformer_calls ws @ [e]) \<and>
         (\<forall>ws e wr s wa. Promise_resolve sample_host res ws = (Rejected e, wr) \<longrightarrow>
            \<not> instanceof_Error e \<longrightarrow>
            ToString sample_host e wr = (Return s, wa) \<longrightarrow>
            p ws = as_settled (transformed_once sample_host (transformer_in_force ?t)
                                 (JObj (fst (synthesized sample_host e s wa)))
                                 (snd (synthesized sample_host e s wa))) \<and>
            transformer_calls (snd (p ws)) =
              transformer_calls ws @ [JObj (fst (synthesized sample_host e s wa))])"
      by (rule mp [OF conjunct1 [OF conjunct2 [OF inst]], OF conjI])
    then show ?thesis by (simp only: w)
  qed
  from deferred [OF sample_promises_chain(1)] sample_resolved
  have b: "\<exists>p. tryCatch sample_host (returning (JObj (resolved_promise (JStr ''x'')))) ?t world0
             = (Return (Deferred p), world0) \<and> p world0 = (Fulfilled (ok (JStr ''x'')), world0)"
    by metis
  from deferred [OF sample_promises_chain(3)] sample_pending
  have c: "\<exists>p. tryCatch sample_host (returning (JObj pending_promise)) ?t world0
             = (Return (Deferred p), world0) \<and> p world0 = (Pending, world0)"
    by metis
  have settled: "as_settled (transformed_once sample_host (transformer_in_force ?t) ?e world0) =
        (Fulfilled \<lparr>r_ok = False, r_val = JUndefined,
                     r_err = JObj (Obj 100 (Some AnticipatedError_prototype) False False
                                     [(''name'', JStr ''AnticipatedError'')])\<rparr>,
         \<lparr>next_ref = 101, transformer_calls = [?e]\<rparr>)"
    by (simp add: replaced_once as_settled_def world0_def)
  from deferred [OF sample_promises_chain(2)] sample_rejected old_error_instance
  obtain q where q: "tryCatch sample_host (returning (JObj (rejected_promise ?e))) ?t world0
             = (Return (Deferred q), world0)"
    "q world0 = as_settled (transformed_once sample_host (transformer_in_force ?t) ?e world0)"
    by metis
  with settled
  have d: "\<exists>p. tryCatch sample_host (returning (JObj (rejected_promise ?e))) ?t world0
             = (Return (Deferred p), world0) \<and>
      p world0 =
        (Fulfilled \<lparr>r_ok = False, r_val = JUndefined,
                     r_err = JObj (Obj 100 (Some AnticipatedError_prototype) False False
                                     [(''name'', JStr ''AnticipatedError'')])\<rparr>,
         \<lparr>next_ref = 101, transformer_calls = [?e]\<rparr>)"
    by auto
  from conjunct1 [OF conjunct2 [OF conjunct2
      [OF all [where expression = "throwing ?e" and v = ?e]]]] thr old_error_instance
  have "tryCatch sample_host (throwing ?e) ?t world0 =
      as_sync (transformed_once sample_host (transformer_in_force ?t) ?e
                 (world0\<lparr>next_ref := next_ref world0\<rparr>))"
    by blast
  then have e: "tryCatch sample_host (throwing ?e) ?t world0 =
     (Return (Sync \<lparr>r_ok = False, r_val = JUndefined,
                     r_err = JObj (Obj 100 (Some AnticipatedError_prototype) False False
                                     [(''name'', JStr ''AnticipatedError'')])\<rparr>),
      \<lparr>next_ref = 101, transformer_calls = [?e]\<rparr>)"
    by (simp add: replaced_once as_sync_def world0_def)
  from conjunct1 [OF conjunct2 [OF conjunct2 [OF conjunct2
      [OF all [where expression = "throwing (JStr ''x'')" and v = "JStr ''x''"
                 and s = "''x''" and wa = world0]]]]] thr str
  have "tryCatch sample_host (throwing (JStr ''x'')) ?t world0 =
      as_sync (transformed_once sample_host (transformer_in_force ?t)
                 (JObj (fst (synthesized sample_host (JStr ''x'') ''x'' world0)))
                 (snd (synthesized sample_host (JStr ''x'') ''x'' world0)))"
    by blast
  moreover have "as_sync (transformed_once sample_host (transformer_in_force ?t)
                 (JObj (fst (synthesized sample_host (JStr ''x'') ''x'' world0)))
                 (snd (synthesized sample_host (JStr ''x'') ''x'' world0))) =
     (Return (Sync \<lparr>r_ok = False, r_val = JUndefined,
                     r_err = JObj (Obj 101 (Some AnticipatedError_prototype) False False
                                     [(''name'', JStr ''AnticipatedError'')])\<rparr>),
      \<lparr>next_ref = 102,
         transformer_calls =
           [JObj (Obj 100 (Some Error_prototype) False False
              [(''message'', JStr (''Unexpected throw value '' @ [CHR 0x27] @ ''x'' @
                                    [CHR 0x27] @ '' of type string'')),
               (''stack'', JStr ''at err'')])]\<rparr>)"
    by (simp add: replaced_once as_sync_def)
       (simp add: synthesized_def new_Error_def world0_def sample_host_def)
  ultimately have f: "tryCatch sample_host (throwing (JStr ''x'')) ?t world0 =
     (Return (Sync \<lparr>r_ok = False, r_val = JUndefined,
                     r_err = JObj (Obj 101 (Some AnticipatedError_prototype) False False
                                     [(''name'', JStr ''AnticipatedError'')])\<rparr>),
      \<lparr>next_ref = 102,
         transformer_calls =
           [JObj (Obj 100 (Some Error_prototype) False False
              [(''message'', JStr (''Unexpected throw value '' @ [CHR 0x27] @ ''x'' @
                                    [CHR 0x27] @ '' of type string'')),
               (''stack'', JStr ''at err'')])]\<rparr>)"
    by (simp only:)
  from conjunct2 [OF conjunct2 [OF conjunct2 [OF conjunct2
      [OF all [where expression = "returning (JObj (broken_promise (JStr ''x'')))"
                 and res = "JObj (broken_promise (JStr ''x''))"]]]]]
    ret broken_then_not_callable
  have "transformer_calls (snd (tryCatch sample_host
          (returning (JObj (broken_promise (JStr ''x'')))) ?t world0)) =
        transformer_calls world0 @
          [JObj (fst (new_TypeError sample_host (call_error_message sample_host)
                        (world0\<lparr>next_ref := next_ref world0\<rparr>)))]"
    by blast
  then have g: "transformer_calls (snd (tryCatch sample_host
          (returning (JObj (broken_promise (JStr ''x'')))) ?t world0)) =
     [JObj (Obj 100 (Some TypeError_prototype) False False
        [(''message'', JStr ''Promise.resolve(...).then is not a function''),
         (''stack'', JStr ''at err'')])]"
    by (simp add: new_TypeError_def world0_def sample_host_def)
  from a b c d e f g show ?thesis by blast
qed

end
